theory Spec2Isabelle
  imports Complex_Main "HOL-Library.Word" "HOL-Library.Multiset" "HOL-Library.Monad_Syntax"
begin

section \<open>Curved Spaces: the platform-independent core\<close>

text \<open>
  A shallow embedding of the C code of Curved Spaces (CurvedSpaces-Common.h,
  CurvedSpacesDirichlet.c, CurvedSpacesSimulation.c, CurvedSpacesGestures.c,
  CurvedSpacesOptions.c, CurvedSpacesProjection.c), compiled with none of the optional
  preprocessor symbols (START_OUTSIDE, CLIFFORD_FLOWS_FOR_TALKS, ...) defined, as the
  header leaves them.

  A \<^verbatim>\<open>double\<close> is a \<^typ>\<open>real\<close>, the number it holds, an \<^verbatim>\<open>unsigned int\<close> a
  \<^typ>\<open>32 word\<close>, a \<^verbatim>\<open>uint64_t\<close> a \<^typ>\<open>64 word\<close>.  Where a result turns on how a sum of
  doubles is rounded (the face value that StayInDirichletDomain compares with its
  threshold), the sum is a \<open>Double\<close> and goes through the machine's arithmetic, which
  is a parameter of the model.  A pointer to a node of the half-edge structure is
  the node's address, a \<^typ>\<open>nat\<close>; address 0 is never allocated and stands for a pointer
  that was never set.  A NULL-terminated linked list is the list of its nodes, each with
  its address, in the order the \<^verbatim>\<open>itsNext\<close> pointers give.
\<close>

subsection \<open>CurvedSpaces-Common.h: the transparent types\<close>

datatype SpaceType = SpaceNone | SpaceSpherical | SpaceFlat | SpaceHyperbolic

datatype ImageParity = ImagePositive | ImageNegative

datatype CliffordMode =
  CliffordNone | CliffordBicolor | CliffordCenterlines | CliffordOneSet | CliffordTwoSets
  | CliffordThreeSets

datatype CenterpieceType =
  CenterpieceNone | CenterpieceEarth | CenterpieceGalaxy | CenterpieceGyroscope

text \<open>\<^verbatim>\<open>typedef struct { double v[4]; } Vector\<close>: the array of its four components.\<close>

type_synonym Vector = "real list"

text \<open>\<^verbatim>\<open>typedef struct { double m[4][4]; ImageParity itsParity; } Matrix\<close>: four rows.\<close>

record Matrix =
  m :: "real list list"
  itsParity :: ImageParity

record HSLAColor =
  hslaH :: real
  hslaS :: real
  hslaL :: real
  hslaA :: real

record RGBAColor =
  rgbaR :: real
  rgbaG :: real
  rgbaB :: real
  rgbaA :: real

text \<open>An \<^verbatim>\<open>ErrorText\<close> is a message, or NULL when there is no error.\<close>

type_synonym ErrorText = "string option"

definition PI :: real where
  "PI = 314159265358979323846 / 10 ^ 20"

subsection \<open>CurvedSpacesDirichlet.c: constants and the half-edge structure\<close>

definition PLANARITY_EPSILON :: real where
  "PLANARITY_EPSILON = 1 / 10 ^ 4"

definition HYPERPLANARITY_EPSILON :: real where
  "HYPERPLANARITY_EPSILON = 1 / 10 ^ 4"

definition ORDER_EPSILON :: real where
  "ORDER_EPSILON = 1 / 10 ^ 6"

definition VERTEX_HALFSPACE_EPSILON :: real where
  "VERTEX_HALFSPACE_EPSILON = 1 / 10 ^ 6"

definition MATE_MATRIX_EPSILON :: real where
  "MATE_MATRIX_EPSILON = 1 / 10 ^ 6"

definition RESTORING_EPSILON :: real where
  \<comment> \<open>\<^verbatim>\<open>#define RESTORING_EPSILON 1e-8\<close>.  The face value is compared with the double this
      literal denotes, the double nearest to 1/10^8: 3022314549036573 / 2^78, which lies
      above 1/10^8 by about 2 / 10^25.\<close>
  "RESTORING_EPSILON = 3022314549036573 / 2 ^ 78"

definition VERTEX_FIGURE_SIZE :: real where
  "VERTEX_FIGURE_SIZE = 1 / 10"

definition VERTEX_FIGURE_CUTOUT :: real where
  "VERTEX_FIGURE_CUTOUT = 7 / 10"

datatype VertexVsHalfspace = VertexInsideHalfspace | VertexOnBoundary | VertexOutsideHalfspace

record HEVertex =
  itsRawPosition :: Vector
  itsNormalizedPosition :: Vector
  itsOutboundHalfEdge :: nat
  itsHalfspaceStatus :: VertexVsHalfspace
  itsCenterPoint :: Vector

record HEHalfEdge =
  itsTip :: nat
  itsMate :: nat
  itsCycle :: nat
  itsFace :: nat
  itsBase :: real
  itsAltitude :: real
  itsDeletionFlag :: bool
  itsOuterPoint :: Vector
  itsInnerPoint :: Vector

record HEFace =
  itsHalfEdge :: nat
  itsHalfspace :: Vector
  itsMatrix :: Matrix
  itsColorIndex :: "32 word"
  itsColorRGBA :: RGBAColor
  itsColorGreyscale :: real
  itsRawCenter :: Vector
  itsNormalizedCenter :: Vector
  itsFaceDeletionFlag :: bool

text \<open>
  \<^verbatim>\<open>struct HEPolyhedron\<close> (the opaque \<^verbatim>\<open>DirichletDomain\<close>).  Each of the three linked
  lists holds its nodes with their addresses, head first.
\<close>

record HEPolyhedron =
  itsVertexList :: "(nat \<times> HEVertex) list"
  itsHalfEdgeList :: "(nat \<times> HEHalfEdge) list"
  itsFaceList :: "(nat \<times> HEFace) list"
  itsSpaceType :: SpaceType
  itsOutradius :: real

type_synonym DirichletDomain = HEPolyhedron

subsection \<open>The linear-algebra kernel\<close>

text \<open>
  CurvedSpacesMatrices.c, CurvedSpacesSafeMath.c and CurvedSpacesColors.c are not among
  the sources.  The functions of the kernel whose meaning the specification fixes
  (identity, product, dot product, ternary cross product, ...) are defined here from its
  words.  Those it only names (the geometric inverse, the geometry-aware normalization,
  the geometric distances, the colour conversion) are parameters of the model: a
  \<open>Kernel\<close> holds one implementation of each, and every function that calls one of
  them takes the kernel as its first argument.

  The kernel also holds the double-precision arithmetic of the machine where the model
  needs it: \<open>MultiplyAccumulate K aSum a b\<close> is what \<^verbatim>\<open>aSum += a * b\<close> leaves in
  \<^verbatim>\<open>aSum\<close>, rounded as the machine rounds it (the product and the sum one after the
  other, or both at once where the compiler fuses them), overflow and all.
\<close>

text \<open>
  The value of a double-precision sum: a number, an infinity, or not a number.
\<close>

datatype Double = FiniteDouble real | PositiveInfinity | NegativeInfinity | NotANumber

definition DoubleGreater :: "Double \<Rightarrow> real \<Rightarrow> bool" where
  \<comment> \<open>The comparison \<^verbatim>\<open>aSum > aBound\<close> of C: false when the sum is not a number.\<close>
  "DoubleGreater aSum aBound =
     (case aSum of
        FiniteDouble x \<Rightarrow> x > aBound
      | PositiveInfinity \<Rightarrow> True
      | NegativeInfinity \<Rightarrow> False
      | NotANumber \<Rightarrow> False)"

definition DoubleAtMost :: "Double \<Rightarrow> real \<Rightarrow> bool" where
  \<comment> \<open>The sum is a number or an infinity, and is at most the bound.\<close>
  "DoubleAtMost aSum aBound =
     (case aSum of
        FiniteDouble x \<Rightarrow> x \<le> aBound
      | PositiveInfinity \<Rightarrow> False
      | NegativeInfinity \<Rightarrow> True
      | NotANumber \<Rightarrow> False)"

record Kernel =
  MultiplyAccumulate :: "Double \<Rightarrow> real \<Rightarrow> real \<Rightarrow> Double"
  MatrixGeometricInverse :: "Matrix \<Rightarrow> Matrix"
  VectorNormalize :: "Vector \<Rightarrow> SpaceType \<Rightarrow> ErrorText \<times> Vector"
  VectorGeometricDistance :: "Vector \<Rightarrow> real"
  VectorGeometricDistance2 :: "Vector \<Rightarrow> Vector \<Rightarrow> real"
  HSLAtoRGBA :: "HSLAColor \<Rightarrow> RGBAColor"

definition MatrixIdentity :: Matrix where
  \<comment> \<open>Modelled from the spec: MatrixIdentity() of CurvedSpacesMatrices.c, the identity
      of the kernel's operations; its determinant is positive.\<close>
  "MatrixIdentity =
     \<lparr>m = [[1, 0, 0, 0], [0, 1, 0, 0], [0, 0, 1, 0], [0, 0, 0, 1]], itsParity = ImagePositive\<rparr>"

definition MatrixIsIdentity :: "Matrix \<Rightarrow> bool" where
  \<comment> \<open>Modelled from the spec: MatrixIsIdentity() of CurvedSpacesMatrices.c; element 0 of
      a generator list "must be the identity": the sixteen entries are those of the
      identity.\<close>
  "MatrixIsIdentity aMatrix = (m aMatrix = m MatrixIdentity)"

definition MatrixProduct :: "Matrix \<Rightarrow> Matrix \<Rightarrow> Matrix" where
  \<comment> \<open>Modelled from the spec: MatrixProduct() of CurvedSpacesMatrices.c, the matrix
      product; "the product of two matrices with determinant signs s1, s2 has determinant
      sign s1 s2".\<close>
  "MatrixProduct aMatrixA aMatrixB =
     \<lparr>m = map (\<lambda>i. map (\<lambda>j. (\<Sum>k \<leftarrow> [0, 1, 2, 3]. m aMatrixA ! i ! k * m aMatrixB ! k ! j))
                 [0, 1, 2, 3]) [0, 1, 2, 3],
      itsParity = (if itsParity aMatrixA = itsParity aMatrixB then ImagePositive
                   else ImageNegative)\<rparr>"

definition MatrixEquality :: "Matrix \<Rightarrow> Matrix \<Rightarrow> real \<Rightarrow> bool" where
  \<comment> \<open>Modelled from the spec: MatrixEquality() of CurvedSpacesMatrices.c,
      "equality-within-epsilon", the tolerance holding "on all matrix entries".\<close>
  "MatrixEquality aMatrixA aMatrixB anEpsilon =
     (\<forall>i \<in> set [0, 1, 2, 3]. \<forall>j \<in> set [0, 1, 2, 3].
        \<bar>m aMatrixA ! i ! j - m aMatrixB ! i ! j\<bar> \<le> anEpsilon)"

definition VectorDotProduct :: "Vector \<Rightarrow> Vector \<Rightarrow> real" where
  \<comment> \<open>Modelled from the spec: VectorDotProduct() of CurvedSpacesMatrices.c, the dot
      product of the embedding space.\<close>
  "VectorDotProduct aVectorA aVectorB = (\<Sum>i \<leftarrow> [0, 1, 2, 3]. aVectorA ! i * aVectorB ! i)"

definition VectorNegate :: "Vector \<Rightarrow> Vector" where
  \<comment> \<open>Modelled from the spec: VectorNegate() of CurvedSpacesMatrices.c.\<close>
  "VectorNegate aVector = map (\<lambda>i. - (aVector ! i)) [0, 1, 2, 3]"

definition VectorSum :: "Vector \<Rightarrow> Vector \<Rightarrow> Vector" where
  \<comment> \<open>Modelled from the spec: VectorSum() of CurvedSpacesMatrices.c.\<close>
  "VectorSum aVectorA aVectorB = map (\<lambda>i. aVectorA ! i + aVectorB ! i) [0, 1, 2, 3]"

definition VectorDifference :: "Vector \<Rightarrow> Vector \<Rightarrow> Vector" where
  \<comment> \<open>Modelled from the spec: VectorDifference() of CurvedSpacesMatrices.c.\<close>
  "VectorDifference aVectorA aVectorB = map (\<lambda>i. aVectorA ! i - aVectorB ! i) [0, 1, 2, 3]"

definition ScalarTimesVector :: "real \<Rightarrow> Vector \<Rightarrow> Vector" where
  \<comment> \<open>Modelled from the spec: ScalarTimesVector() of CurvedSpacesMatrices.c.\<close>
  "ScalarTimesVector aScalar aVector = map (\<lambda>i. aScalar * aVector ! i) [0, 1, 2, 3]"

definition VectorTimesMatrix :: "Vector \<Rightarrow> Matrix \<Rightarrow> Vector" where
  \<comment> \<open>Modelled from the spec: VectorTimesMatrix() of CurvedSpacesMatrices.c, the
      "matrix-vector product"; a vector is a row, so that the last row of a matrix is the
      image of the basepoint (0,0,0,1).\<close>
  "VectorTimesMatrix aVector aMatrix =
     map (\<lambda>j. (\<Sum>i \<leftarrow> [0, 1, 2, 3]. aVector ! i * m aMatrix ! i ! j)) [0, 1, 2, 3]"

definition det3 :: "real \<Rightarrow> real \<Rightarrow> real \<Rightarrow> real \<Rightarrow> real \<Rightarrow> real \<Rightarrow> real \<Rightarrow> real \<Rightarrow> real \<Rightarrow> real" where
  "det3 a b c d e f g h i = a * (e * i - f * h) - b * (d * i - f * g) + c * (d * h - e * g)"

definition VectorTernaryCrossProduct :: "Vector \<Rightarrow> Vector \<Rightarrow> Vector \<Rightarrow> Vector" where
  \<comment> \<open>Modelled from the spec: VectorTernaryCrossProduct() of CurvedSpacesMatrices.c, the
      "ternary cross product (the analog used to find a vector orthogonal to three given
      vectors)": the cofactors of a formal fourth row.  The sign is the one MakeBanana()
      documents: the product of (1,0,0,-e), (0,1,0,-e), (0,0,1,-e) lies near the south
      pole (0,0,0,-1).\<close>
  "VectorTernaryCrossProduct a b c =
     [ det3 (a ! 1) (a ! 2) (a ! 3) (b ! 1) (b ! 2) (b ! 3) (c ! 1) (c ! 2) (c ! 3),
       - det3 (a ! 0) (a ! 2) (a ! 3) (b ! 0) (b ! 2) (b ! 3) (c ! 0) (c ! 2) (c ! 3),
       det3 (a ! 0) (a ! 1) (a ! 3) (b ! 0) (b ! 1) (b ! 3) (c ! 0) (c ! 1) (c ! 3),
       - det3 (a ! 0) (a ! 1) (a ! 2) (b ! 0) (b ! 1) (b ! 2) (c ! 0) (c ! 1) (c ! 2) ]"

subsection \<open>CurvedSpacesDirichlet.c: StayInDirichletDomain\<close>

definition faceValue :: "Kernel \<Rightarrow> Vector \<Rightarrow> Matrix \<Rightarrow> Double" where
  \<comment> \<open>theFaceValue: the halfspace equation on the image of the basepoint, the last row
      of the placement, accumulated in double precision from 0 by
      \<^verbatim>\<open>theFaceValue += theFace->itsHalfspace.v[i] * aPlacement->m[3][i]\<close> for i = 0, 1, 2, 3.\<close>
  "faceValue K aHalfspace aPlacement =
     foldl (\<lambda>theFaceValue i.
              MultiplyAccumulate K theFaceValue (aHalfspace ! i) (m aPlacement ! 3 ! i))
       (FiniteDouble 0) [0, 1, 2, 3]"

definition restoreAcrossFace :: "Kernel \<Rightarrow> Matrix \<Rightarrow> HEFace \<Rightarrow> Matrix" where
  \<comment> \<open>The body of the loop over the faces.\<close>
  "restoreAcrossFace K aPlacement theFace =
     (if DoubleGreater (faceValue K (itsHalfspace theFace) aPlacement) RESTORING_EPSILON
      then MatrixProduct aPlacement (MatrixGeometricInverse K (itsMatrix theFace))
      else aPlacement)"

fun StayInDirichletDomain :: "Kernel \<Rightarrow> DirichletDomain option \<Rightarrow> Matrix \<Rightarrow> Matrix" where
  "StayInDirichletDomain K None aPlacement = aPlacement"
| "StayInDirichletDomain K (Some aDirichletDomain) aPlacement =
     foldl (restoreAcrossFace K) aPlacement (map snd (itsFaceList aDirichletDomain))"

subsection \<open>CurvedSpaces-Common.h: the honeycomb and the model data\<close>

record Honeycell =
  itsCellMatrix :: Matrix
  itsCellCenterInWorldSpace :: Vector
  itsDistanceCameraToCellCenter :: real

text \<open>
  \<^verbatim>\<open>Honeycomb\<close>.  The array \<^verbatim>\<open>itsCells\<close> is the list of its cells, and
  \<^verbatim>\<open>itsNumCells\<close> the length of that list.  \<^verbatim>\<open>itsVisibleCells\<close> is an array of
  pointers into \<^verbatim>\<open>itsCells\<close>: each entry is NULL (\<open>None\<close>) or the index of a cell.
\<close>

record Honeycomb =
  itsCells :: "Honeycell list"
  itsNumVisibleCells :: "32 word"
  itsNumVisiblePlainCells :: "32 word"
  itsNumVisibleReflectedCells :: "32 word"
  itsVisibleCells :: "nat option list"

text \<open>\<^verbatim>\<open>struct ModelData\<close>, with the fields present when no optional symbol is defined.\<close>

record ModelData =
  itsChangeCount :: "64 word"
  itsModelSpaceType :: SpaceType
  itsDrawBackHemisphere :: bool
  itsThreeSphereFlag :: bool
  itsHorizonRadius :: real
  itsUserBodyPlacement :: Matrix
  itsUserSpeed :: real
  itsPrePauseUserSpeed :: real
  itsDirichletDomain :: "DirichletDomain option"
  itsHoneycomb :: "Honeycomb option"
  itsAperture :: real
  itsDirichletWallsMeshNeedsRefresh :: bool
  itsVertexFigureMeshNeedsReplacement :: bool
  itsCenterpieceType :: CenterpieceType
  itsRotationAngle :: real
  itsShowObserver :: bool
  itsShowColorCoding :: bool
  itsCliffordMode :: CliffordMode
  itsShowVertexFigures :: bool
  itsFogFlag :: bool

subsection \<open>CurvedSpacesGestures.c\<close>

definition APERTURE_DILATION_CONSTANT :: real where
  "APERTURE_DILATION_CONSTANT = 1 / 2"

definition GestureRotate :: "ModelData \<Rightarrow> real \<Rightarrow> ModelData" where
  "GestureRotate md anAngle =
     (let c = cos anAngle;
          s = sin anAngle;
          theRotation = \<lparr>m = [[c, - s, 0, 0], [s, c, 0, 0], [0, 0, 1, 0], [0, 0, 0, 1]],
                         itsParity = ImagePositive\<rparr>;
          md1 = md\<lparr>itsUserBodyPlacement := MatrixProduct theRotation (itsUserBodyPlacement md)\<rparr>
      in md1\<lparr>itsChangeCount := itsChangeCount md1 + 1\<rparr>)"

definition GesturePinch :: "ModelData \<Rightarrow> real \<Rightarrow> ModelData" where
  "GesturePinch md anExpansionFactor =
     (let md1 = md\<lparr>itsAperture := itsAperture md + APERTURE_DILATION_CONSTANT * (anExpansionFactor - 1)\<rparr>;
          md2 = (if itsAperture md1 < 0 then md1\<lparr>itsAperture := 0\<rparr> else md1);
          md3 = (if itsAperture md2 > 1 then md2\<lparr>itsAperture := 1\<rparr> else md2);
          md4 = md3\<lparr>itsDirichletWallsMeshNeedsRefresh := True\<rparr>
      in md4\<lparr>itsChangeCount := itsChangeCount md4 + 1\<rparr>)"

definition GestureTap :: "ModelData \<Rightarrow> ModelData" where
  \<comment> \<open>"No need to increment md->itsChangeCount.  The caller will refresh the speed slider."\<close>
  "GestureTap md =
     (if itsUserSpeed md \<noteq> 0
      then md\<lparr>itsPrePauseUserSpeed := itsUserSpeed md, itsUserSpeed := 0\<rparr>
      else md\<lparr>itsUserSpeed := itsPrePauseUserSpeed md, itsPrePauseUserSpeed := 0\<rparr>)"

subsection \<open>CurvedSpacesOptions.c\<close>

definition SetCenterpiece :: "ModelData \<Rightarrow> CenterpieceType \<Rightarrow> ModelData" where
  "SetCenterpiece md aCenterpieceChoice =
     md\<lparr>itsCenterpieceType := aCenterpieceChoice, itsChangeCount := itsChangeCount md + 1\<rparr>"

definition SetShowObserver :: "ModelData \<Rightarrow> bool \<Rightarrow> ModelData" where
  "SetShowObserver md aShowObserverChoice =
     md\<lparr>itsShowObserver := aShowObserverChoice, itsChangeCount := itsChangeCount md + 1\<rparr>"

definition SetShowColorCoding :: "ModelData \<Rightarrow> bool \<Rightarrow> ModelData" where
  "SetShowColorCoding md aShowColorCodingChoice =
     md\<lparr>itsShowColorCoding := aShowColorCodingChoice,
        itsDirichletWallsMeshNeedsRefresh := True,
        itsChangeCount := itsChangeCount md + 1\<rparr>"

definition SetShowCliffordParallels :: "ModelData \<Rightarrow> CliffordMode \<Rightarrow> ModelData" where
  "SetShowCliffordParallels md aCliffordMode =
     md\<lparr>itsCliffordMode := aCliffordMode, itsChangeCount := itsChangeCount md + 1\<rparr>"

definition SetShowVertexFigures :: "ModelData \<Rightarrow> bool \<Rightarrow> ModelData" where
  "SetShowVertexFigures md aShowVertexFiguresChoice =
     md\<lparr>itsShowVertexFigures := aShowVertexFiguresChoice, itsChangeCount := itsChangeCount md + 1\<rparr>"

definition SetFogFlag :: "ModelData \<Rightarrow> bool \<Rightarrow> ModelData" where
  "SetFogFlag md aFogFlag =
     md\<lparr>itsFogFlag := aFogFlag, itsChangeCount := itsChangeCount md + 1\<rparr>"

subsection \<open>CurvedSpacesSimulation.c\<close>

definition MAX_FRAME_PERIOD :: real where
  "MAX_FRAME_PERIOD = 1 / 10"

definition CENTERPIECE_ANGULAR_VELOCITY :: real where
  "CENTERPIECE_ANGULAR_VELOCITY = 1 / 10"

definition SimulationWantsUpdates :: "ModelData \<Rightarrow> bool" where
  "SimulationWantsUpdates md =
     (itsModelSpaceType md \<noteq> SpaceNone
      \<and> (itsUserSpeed md \<noteq> 0 \<or> itsCenterpieceType md \<noteq> CenterpieceNone))"

definition UpdateCenterpieceRotation :: "ModelData \<Rightarrow> real \<Rightarrow> ModelData" where
  "UpdateCenterpieceRotation md aFramePeriod =
     (let md1 = md\<lparr>itsRotationAngle := itsRotationAngle md - aFramePeriod * CENTERPIECE_ANGULAR_VELOCITY\<rparr>
      in if itsRotationAngle md1 < 0
         then md1\<lparr>itsRotationAngle := itsRotationAngle md1 + 2 * PI\<rparr>
         else md1)"

definition theMetricChoices :: "real list list list" where
  "theMetricChoices =
     [ [[1, 1, 1, 1], [1, 1, 1, 1]],
       [[1, 1, 1, 0], [0, 0, 0, 1]],
       [[1, 1, 1, - 1], [- 1, - 1, - 1, 1]] ]"

definition metricInnerProduct :: "real list \<Rightarrow> real list \<Rightarrow> real list \<Rightarrow> real" where
  \<comment> \<open>theInnerProduct, accumulated over the four columns.\<close>
  "metricInnerProduct theMetric aRowA aRowB =
     foldl (\<lambda>theInnerProduct k. theInnerProduct + theMetric ! k * aRowA ! k * aRowB ! k) 0 [0, 1, 2, 3]"

definition normalizeRow :: "real list list \<Rightarrow> real list list \<Rightarrow> nat \<Rightarrow> real list list" where
  \<comment> \<open>One round of the first loop of FastGramSchmidt(): rescale row i.\<close>
  "normalizeRow theMetricPair rows i =
     (let theRow = rows ! i;
          theMetric = theMetricPair ! (if i = 3 then 1 else 0);
          theInnerProduct = metricInnerProduct theMetric theRow theRow;
          theFactor = 1 / sqrt theInnerProduct
      in rows[i := map (\<lambda>j. theRow ! j * theFactor) [0, 1, 2, 3]])"

definition subtractProjection :: "real list \<Rightarrow> nat \<Rightarrow> real list list \<Rightarrow> nat \<Rightarrow> real list list" where
  \<comment> \<open>One round of the inner loop of the second loop: make row j orthogonal to row i.\<close>
  "subtractProjection theMetric i rows j =
     (let theInnerProduct = metricInnerProduct theMetric (rows ! i) (rows ! j)
      in rows[j := map (\<lambda>k. rows ! j ! k - theInnerProduct * rows ! i ! k) [0, 1, 2, 3]])"

definition orthogonalizeAgainstRow :: "real list list \<Rightarrow> real list list \<Rightarrow> nat \<Rightarrow> real list list" where
  \<comment> \<open>One round of the second loop: \<^verbatim>\<open>for (j = i; j-- > 0; )\<close>.\<close>
  "orthogonalizeAgainstRow theMetricPair rows i =
     foldl (subtractProjection (theMetricPair ! (if i = 3 then 1 else 0)) i) rows (rev [0..<i])"

definition gramSchmidtRows :: "real list list \<Rightarrow> real list list \<Rightarrow> real list list" where
  "gramSchmidtRows theMetricPair rows =
     foldl (orthogonalizeAgainstRow theMetricPair)
       (foldl (normalizeRow theMetricPair) rows [0, 1, 2, 3]) [3, 2, 1, 0]"

definition FastGramSchmidt :: "Matrix \<Rightarrow> SpaceType \<Rightarrow> Matrix" where
  "FastGramSchmidt aMatrix aSpaceType =
     (case aSpaceType of
        SpaceSpherical \<Rightarrow> aMatrix\<lparr>m := gramSchmidtRows (theMetricChoices ! 0) (m aMatrix)\<rparr>
      | SpaceFlat \<Rightarrow> aMatrix\<lparr>m := gramSchmidtRows (theMetricChoices ! 1) (m aMatrix)\<rparr>
      | SpaceHyperbolic \<Rightarrow> aMatrix\<lparr>m := gramSchmidtRows (theMetricChoices ! 2) (m aMatrix)\<rparr>
      | SpaceNone \<Rightarrow> aMatrix)"

definition setEntry :: "Matrix \<Rightarrow> nat \<Rightarrow> nat \<Rightarrow> real \<Rightarrow> Matrix" where
  \<comment> \<open>\<^verbatim>\<open>aMatrix.m[i][j] = x\<close>\<close>
  "setEntry aMatrix i j x = aMatrix\<lparr>m := (m aMatrix)[i := (m aMatrix ! i)[j := x]]\<rparr>"

definition theIncrement :: "SpaceType \<Rightarrow> real \<Rightarrow> Matrix" where
  \<comment> \<open>The motion by distance d, as UpdateUserPlacement() builds it.\<close>
  "theIncrement aSpaceType d =
     (case aSpaceType of
        SpaceSpherical \<Rightarrow>
          setEntry (setEntry (setEntry (setEntry MatrixIdentity 2 2 (cos d)) 2 3 (- sin d))
            3 2 (sin d)) 3 3 (cos d)
      | SpaceFlat \<Rightarrow> setEntry MatrixIdentity 3 2 d
      | SpaceHyperbolic \<Rightarrow>
          setEntry (setEntry (setEntry (setEntry MatrixIdentity 2 2 (cosh d)) 2 3 (sinh d))
            3 2 (sinh d)) 3 3 (cosh d)
      | SpaceNone \<Rightarrow> MatrixIdentity)"

definition UpdateUserPlacement :: "Kernel \<Rightarrow> ModelData \<Rightarrow> real \<Rightarrow> ModelData" where
  "UpdateUserPlacement K md aFramePeriod =
     (let d = itsUserSpeed md * aFramePeriod;
          md1 = md\<lparr>itsUserBodyPlacement :=
                  MatrixProduct (theIncrement (itsModelSpaceType md) d) (itsUserBodyPlacement md)\<rparr>;
          md2 = md1\<lparr>itsUserBodyPlacement :=
                  StayInDirichletDomain K (itsDirichletDomain md1) (itsUserBodyPlacement md1)\<rparr>
      in md2\<lparr>itsUserBodyPlacement :=
                  FastGramSchmidt (itsUserBodyPlacement md2) (itsModelSpaceType md2)\<rparr>)"

definition SimulationUpdate :: "Kernel \<Rightarrow> ModelData \<Rightarrow> real \<Rightarrow> ModelData" where
  "SimulationUpdate K md aFramePeriod =
     (let aFramePeriod' = (if aFramePeriod > MAX_FRAME_PERIOD then MAX_FRAME_PERIOD
                           else aFramePeriod);
          md1 = UpdateCenterpieceRotation md aFramePeriod';
          md2 = UpdateUserPlacement K md1 aFramePeriod'
      in md2\<lparr>itsChangeCount := itsChangeCount md2 + 1\<rparr>)"

definition GetChangeCount :: "ModelData \<Rightarrow> 64 word" where
  "GetChangeCount md = itsChangeCount md"

subsection \<open>CurvedSpacesInit.c\<close>

definition SetUpModelData :: ModelData where
  \<comment> \<open>SetUpModelData() assigns every field, so its result is one value.\<close>
  "SetUpModelData =
     \<lparr>itsChangeCount = 0,
      itsModelSpaceType = SpaceNone,
      itsDrawBackHemisphere = False,
      itsThreeSphereFlag = False,
      itsHorizonRadius = 0,
      itsUserBodyPlacement = MatrixIdentity,
      itsUserSpeed = 0,
      itsPrePauseUserSpeed = 0,
      itsDirichletDomain = None,
      itsHoneycomb = None,
      itsAperture = 1 / 4,
      itsDirichletWallsMeshNeedsRefresh = True,
      itsVertexFigureMeshNeedsReplacement = True,
      itsCenterpieceType = CenterpieceEarth,
      itsRotationAngle = 0,
      itsShowObserver = True,
      itsShowColorCoding = False,
      itsCliffordMode = CliffordNone,
      itsShowVertexFigures = False,
      itsFogFlag = True\<rparr>"

subsection \<open>CurvedSpacesProjection.c\<close>

definition CharacteristicViewSize :: "real \<Rightarrow> real \<Rightarrow> real" where
  "CharacteristicViewSize aFrameWidth aFrameHeight =
     (1 / 2) * (if aFrameWidth \<ge> aFrameHeight then aFrameWidth else aFrameHeight)"

subsection \<open>CurvedSpacesDirichlet.c: the honeycomb\<close>

definition MakeCullingHyperplanes :: "real \<Rightarrow> real \<Rightarrow> string + real list list" where
  "MakeCullingHyperplanes anImageWidth anImageHeight =
     (let w = (1 / 2) * anImageWidth;
          h = (1 / 2) * anImageHeight;
          c = CharacteristicViewSize anImageWidth anImageHeight
      in if \<not> (w > 0 \<and> h > 0) then Inl ''received image of nonpositive size''
         else if \<not> c > 0 then Inl ''nonpositive characteristic size''
         else
           let theInverseLengthWC = 1 / sqrt (w * w + c * c);
               theInverseLengthHC = 1 / sqrt (h * h + c * c)
           in Inr [ [- c * theInverseLengthWC, 0, w * theInverseLengthWC, 0],
                    [c * theInverseLengthWC, 0, w * theInverseLengthWC, 0],
                    [0, - c * theInverseLengthHC, h * theInverseLengthHC, 0],
                    [0, c * theInverseLengthHC, h * theInverseLengthHC, 0] ])"

definition BoundingSphereIntersectsViewFrustum :: "real list \<Rightarrow> real \<Rightarrow> real list list \<Rightarrow> bool" where
  "BoundingSphereIntersectsViewFrustum aCellCenterInCameraSpace anAdjustedDirichletDomainRadius
       someCullingPlanes =
     list_all
       (\<lambda>i. \<not> aCellCenterInCameraSpace ! 0 * someCullingPlanes ! i ! 0
                + aCellCenterInCameraSpace ! 1 * someCullingPlanes ! i ! 1
                + aCellCenterInCameraSpace ! 2 * someCullingPlanes ! i ! 2
              < - anAdjustedDirichletDomainRadius)
       [0, 1, 2, 3]"

definition CompareCellCenterDistances :: "Honeycell \<Rightarrow> Honeycell \<Rightarrow> int" where
  \<comment> \<open>The two arguments are the cells that \<^verbatim>\<open>*p1\<close> and \<^verbatim>\<open>*p2\<close> point to.\<close>
  "CompareCellCenterDistances aCell1 aCell2 =
     (let theDifference = itsDistanceCameraToCellCenter aCell1 - itsDistanceCameraToCellCenter aCell2
      in if theDifference < 0 then - 1
         else if theDifference > 0 then 1
         else 0)"

fun qsortInsert :: "('a \<Rightarrow> 'a \<Rightarrow> int) \<Rightarrow> 'a \<Rightarrow> 'a list \<Rightarrow> 'a list" where
  "qsortInsert compar x [] = [x]"
| "qsortInsert compar x (y # ys) =
     (if compar x y \<le> 0 then x # y # ys else y # qsortInsert compar x ys)"

definition qsort :: "('a \<Rightarrow> 'a \<Rightarrow> int) \<Rightarrow> 'a list \<Rightarrow> 'a list" where
  \<comment> \<open>qsort() of the C library: it sorts the array into ascending order according to the
      comparison function, and the order of elements that compare equal is unspecified.
      Sorting by insertion is one function that does so.\<close>
  "qsort compar xs = foldr (qsortInsert compar) xs []"

definition cellAt :: "Honeycell list \<Rightarrow> nat option \<Rightarrow> Honeycell" where
  \<comment> \<open>The cell an entry of \<^verbatim>\<open>itsVisibleCells\<close> points to.\<close>
  "cellAt someCells aPointer = someCells ! the aPointer"

definition cellIsVisible :: "SpaceType \<Rightarrow> real \<Rightarrow> real \<Rightarrow> real list list \<Rightarrow> Vector \<Rightarrow> real \<Rightarrow> bool" where
  \<comment> \<open>The test of the loop over the cells.\<close>
  "cellIsVisible aSpaceType theTilingRadius theAdjustedDirichletDomainRadius theCullingHyperplanes
       theCellCenterInCameraSpace theDistance =
     (aSpaceType = SpaceSpherical
      \<or> (theCellCenterInCameraSpace ! 2 > - theAdjustedDirichletDomainRadius
         \<and> theDistance < theTilingRadius
         \<and> BoundingSphereIntersectsViewFrustum theCellCenterInCameraSpace
              theAdjustedDirichletDomainRadius theCullingHyperplanes))"

definition cullCell ::
  "Kernel \<Rightarrow> Matrix \<Rightarrow> SpaceType \<Rightarrow> real \<Rightarrow> real \<Rightarrow> real list list \<Rightarrow> Honeycomb \<Rightarrow> nat \<Rightarrow> Honeycomb" where
  \<comment> \<open>One round of the loop over the cells, for the cell of index i.\<close>
  "cullCell K aViewMatrix aSpaceType theTilingRadius theAdjustedDirichletDomainRadius
       theCullingHyperplanes aHoneycomb i =
     (let theHoneycell = itsCells aHoneycomb ! i;
          theCellCenterInCameraSpace =
            VectorTimesMatrix (itsCellCenterInWorldSpace theHoneycell) aViewMatrix;
          theHoneycell1 = theHoneycell\<lparr>itsDistanceCameraToCellCenter :=
            VectorGeometricDistance K theCellCenterInCameraSpace\<rparr>;
          hc1 = aHoneycomb\<lparr>itsCells := (itsCells aHoneycomb)[i := theHoneycell1]\<rparr>
      in if cellIsVisible aSpaceType theTilingRadius theAdjustedDirichletDomainRadius
              theCullingHyperplanes theCellCenterInCameraSpace
              (itsDistanceCameraToCellCenter theHoneycell1)
         then
           let hc2 = hc1\<lparr>itsVisibleCells :=
                        (itsVisibleCells hc1)[unat (itsNumVisibleCells hc1) := Some i]\<rparr>;
               hc3 = hc2\<lparr>itsNumVisibleCells := itsNumVisibleCells hc2 + 1\<rparr>
           in if itsParity (itsCellMatrix theHoneycell1) = itsParity aViewMatrix
              then hc3\<lparr>itsNumVisiblePlainCells := itsNumVisiblePlainCells hc3 + 1\<rparr>
              else hc3\<lparr>itsNumVisibleReflectedCells := itsNumVisibleReflectedCells hc3 + 1\<rparr>
         else hc1)"

definition sortVisibleCells :: "Honeycomb \<Rightarrow> Honeycomb" where
  \<comment> \<open>The call of qsort() on the first itsNumVisibleCells entries of itsVisibleCells.\<close>
  "sortVisibleCells aHoneycomb =
     (let n = unat (itsNumVisibleCells aHoneycomb)
      in aHoneycomb\<lparr>itsVisibleCells :=
           qsort (\<lambda>p1 p2. CompareCellCenterDistances (cellAt (itsCells aHoneycomb) p1)
                              (cellAt (itsCells aHoneycomb) p2))
             (take n (itsVisibleCells aHoneycomb))
           @ drop n (itsVisibleCells aHoneycomb)\<rparr>)"

definition adjustedDirichletDomainRadius :: "SpaceType \<Rightarrow> real \<Rightarrow> string + real" where
  \<comment> \<open>The switch that sets theAdjustedDirichletDomainRadius.\<close>
  "adjustedDirichletDomainRadius aSpaceType aDirichletDomainRadius =
     (case aSpaceType of
        SpaceNone \<Rightarrow> Inl ''unexpected SpaceNone''
      | SpaceSpherical \<Rightarrow> Inr (sin aDirichletDomainRadius)
      | SpaceFlat \<Rightarrow> Inr aDirichletDomainRadius
      | SpaceHyperbolic \<Rightarrow> Inr (sinh aDirichletDomainRadius))"

definition CullAndSortVisibleCells ::
  "Kernel \<Rightarrow> Honeycomb option \<Rightarrow> Matrix \<Rightarrow> real \<Rightarrow> real \<Rightarrow> real \<Rightarrow> real \<Rightarrow> SpaceType
     \<Rightarrow> string + Honeycomb option" where
  \<comment> \<open>\<open>Inl\<close>: the call ends in GEOMETRY_GAMES_ABORT or a failed GEOMETRY_GAMES_ASSERT.
      \<open>Inr\<close>: the honeycomb as the call leaves it.\<close>
  "CullAndSortVisibleCells K aHoneycomb aViewMatrix anImageWidth anImageHeight aHorizonRadius
       aDirichletDomainRadius aSpaceType =
     (case aHoneycomb of
        None \<Rightarrow> Inr None
      | Some hc \<Rightarrow>
          let hc0 = hc\<lparr>itsNumVisibleCells := 0, itsNumVisiblePlainCells := 0,
                       itsNumVisibleReflectedCells := 0\<rparr>;
              theTilingRadius = aHorizonRadius + aDirichletDomainRadius
          in case adjustedDirichletDomainRadius aSpaceType aDirichletDomainRadius of
               Inl anAbort \<Rightarrow> Inl anAbort
             | Inr theAdjustedDirichletDomainRadius \<Rightarrow>
                 (case MakeCullingHyperplanes anImageWidth anImageHeight of
                    Inl anAssertion \<Rightarrow> Inl anAssertion
                  | Inr theCullingHyperplanes \<Rightarrow>
                      Inr (Some (sortVisibleCells
                        (foldl (cullCell K aViewMatrix aSpaceType theTilingRadius
                                  theAdjustedDirichletDomainRadius theCullingHyperplanes)
                           hc0 [0..<length (itsCells hc0)])))))"

text \<open>For the statements about the culled honeycomb.\<close>

definition cellCenterInCameraSpace :: "Honeycomb \<Rightarrow> Matrix \<Rightarrow> nat \<Rightarrow> Vector" where
  \<comment> \<open>theCellCenterInCameraSpace of the cell of index i.\<close>
  "cellCenterInCameraSpace aHoneycomb aViewMatrix i =
     VectorTimesMatrix (itsCellCenterInWorldSpace (itsCells aHoneycomb ! i)) aViewMatrix"

definition acceptedCells ::
  "Kernel \<Rightarrow> Honeycomb \<Rightarrow> Matrix \<Rightarrow> SpaceType \<Rightarrow> real \<Rightarrow> real \<Rightarrow> real list list \<Rightarrow> nat \<Rightarrow> nat list" where
  \<comment> \<open>The indices below k of the cells that pass the test of the loop, in the order of
      the array.\<close>
  "acceptedCells K aHoneycomb aViewMatrix aSpaceType theTilingRadius
       theAdjustedDirichletDomainRadius theCullingHyperplanes k =
     filter
       (\<lambda>i. cellIsVisible aSpaceType theTilingRadius theAdjustedDirichletDomainRadius
               theCullingHyperplanes (cellCenterInCameraSpace aHoneycomb aViewMatrix i)
               (VectorGeometricDistance K (cellCenterInCameraSpace aHoneycomb aViewMatrix i)))
       [0..<k]"

subsection \<open>Memory\<close>

text \<open>
  GET_MEMORY and FREE_MEMORY are macros of GeometryGamesUtilities-Common.h, which is not
  among the sources.  An allocator grants a number of requests and refuses every later
  one; the addresses it hands out are all different and none is 0.  Freeing a node takes
  it off its list.
\<close>

record Allocator =
  itsNextAddress :: nat
  itsGrants :: nat

definition GET_MEMORY :: "Allocator \<Rightarrow> nat option \<times> Allocator" where
  \<comment> \<open>Modelled from the spec: "allocation failure: checked at every allocation site";
      \<open>None\<close> is the NULL of a refused request.\<close>
  "GET_MEMORY anAllocator =
     (if itsGrants anAllocator = 0 then (None, anAllocator)
      else (Some (itsNextAddress anAllocator),
            anAllocator\<lparr>itsNextAddress := Suc (itsNextAddress anAllocator),
                        itsGrants := itsGrants anAllocator - 1\<rparr>))"

fun getMemories :: "nat \<Rightarrow> Allocator \<Rightarrow> nat list option \<times> Allocator" where
  \<comment> \<open>A run of requests that stops at the first refusal.\<close>
  "getMemories 0 anAllocator = (Some [], anAllocator)"
| "getMemories (Suc n) anAllocator =
     (case GET_MEMORY anAllocator of
        (None, al1) \<Rightarrow> (None, al1)
      | (Some anAddress, al1) \<Rightarrow>
          (case getMemories n al1 of
             (None, al2) \<Rightarrow> (None, al2)
           | (Some someAddresses, al2) \<Rightarrow> (Some (anAddress # someAddresses), al2)))"

text \<open>
  The fields of a node that GET_MEMORY has just returned hold no assigned value yet: here
  a pointer that was never set is 0, a vector the empty list, a number 0.
\<close>

definition freshVertex :: HEVertex where
  "freshVertex =
     \<lparr>itsRawPosition = [], itsNormalizedPosition = [], itsOutboundHalfEdge = 0,
      itsHalfspaceStatus = VertexOnBoundary, itsCenterPoint = []\<rparr>"

definition freshHalfEdge :: HEHalfEdge where
  "freshHalfEdge =
     \<lparr>itsTip = 0, itsMate = 0, itsCycle = 0, itsFace = 0, itsBase = 0, itsAltitude = 0,
      itsDeletionFlag = False, itsOuterPoint = [], itsInnerPoint = []\<rparr>"

definition freshFace :: HEFace where
  "freshFace =
     \<lparr>itsHalfEdge = 0, itsHalfspace = [], itsMatrix = \<lparr>m = [], itsParity = ImagePositive\<rparr>,
      itsColorIndex = 0, itsColorRGBA = \<lparr>rgbaR = 0, rgbaG = 0, rgbaB = 0, rgbaA = 0\<rparr>,
      itsColorGreyscale = 0, itsRawCenter = [], itsNormalizedCenter = [],
      itsFaceDeletionFlag = False\<rparr>"

subsection \<open>Reading and writing through pointers\<close>

text \<open>
  Reading or writing through a pointer that is not the address of a node of the list is
  undefined behaviour in C; here it yields \<open>None\<close>, as does a loop that never ends.
\<close>

definition readVertex :: "HEPolyhedron \<Rightarrow> nat \<Rightarrow> HEVertex option" where
  "readVertex P a = map_of (itsVertexList P) a"

definition readHalfEdge :: "HEPolyhedron \<Rightarrow> nat \<Rightarrow> HEHalfEdge option" where
  "readHalfEdge P a = map_of (itsHalfEdgeList P) a"

definition readFace :: "HEPolyhedron \<Rightarrow> nat \<Rightarrow> HEFace option" where
  "readFace P a = map_of (itsFaceList P) a"

definition writeNode :: "nat \<Rightarrow> ('a \<Rightarrow> 'a) \<Rightarrow> (nat \<times> 'a) list \<Rightarrow> (nat \<times> 'a) list" where
  "writeNode a f someNodes = map (\<lambda>(b, x). if b = a then (b, f x) else (b, x)) someNodes"

definition writeVertex :: "nat \<Rightarrow> (HEVertex \<Rightarrow> HEVertex) \<Rightarrow> HEPolyhedron \<Rightarrow> HEPolyhedron option" where
  "writeVertex a f P =
     (case readVertex P a of
        None \<Rightarrow> None
      | Some _ \<Rightarrow> Some (P\<lparr>itsVertexList := writeNode a f (itsVertexList P)\<rparr>))"

definition writeHalfEdge :: "nat \<Rightarrow> (HEHalfEdge \<Rightarrow> HEHalfEdge) \<Rightarrow> HEPolyhedron \<Rightarrow> HEPolyhedron option" where
  "writeHalfEdge a f P =
     (case readHalfEdge P a of
        None \<Rightarrow> None
      | Some _ \<Rightarrow> Some (P\<lparr>itsHalfEdgeList := writeNode a f (itsHalfEdgeList P)\<rparr>))"

definition writeFace :: "nat \<Rightarrow> (HEFace \<Rightarrow> HEFace) \<Rightarrow> HEPolyhedron \<Rightarrow> HEPolyhedron option" where
  "writeFace a f P =
     (case readFace P a of
        None \<Rightarrow> None
      | Some _ \<Rightarrow> Some (P\<lparr>itsFaceList := writeNode a f (itsFaceList P)\<rparr>))"

fun forEachNode :: "(nat \<Rightarrow> 's \<Rightarrow> 's option) \<Rightarrow> nat list \<Rightarrow> 's \<Rightarrow> 's option" where
  \<comment> \<open>\<^verbatim>\<open>for (x = aList; x != NULL; x = x->itsNext)\<close> over the nodes the list holds when
      the loop starts; a node the body puts at the head of the list is not visited.\<close>
  "forEachNode body [] s = Some s"
| "forEachNode body (a # as) s =
     (case body a s of None \<Rightarrow> None | Some s' \<Rightarrow> forEachNode body as s')"

fun forEachNodeOrError ::
  "(nat \<Rightarrow> 's \<Rightarrow> (ErrorText \<times> 's) option) \<Rightarrow> nat list \<Rightarrow> 's \<Rightarrow> (ErrorText \<times> 's) option" where
  \<comment> \<open>The same loop, with a body that may return an error from the function.\<close>
  "forEachNodeOrError body [] s = Some (None, s)"
| "forEachNodeOrError body (a # as) s =
     (case body a s of
        None \<Rightarrow> None
      | Some (Some anError, s') \<Rightarrow> Some (Some anError, s')
      | Some (None, s') \<Rightarrow> forEachNodeOrError body as s')"

subsection \<open>CurvedSpacesDirichlet.c: MakeHalfspaceInequality, MakeBanana\<close>

definition MakeHalfspaceInequality :: "Matrix \<Rightarrow> Vector" where
  "MakeHalfspaceInequality aMatrix =
     (let v0 = map (\<lambda>i. m aMatrix ! 3 ! i) [0, 1, 2, 3];
          v1 = v0[3 := v0 ! 3 - 1];
          v2 = (if m aMatrix ! 3 ! 3 = 1
                then v1[3 := - (1 / 2) * VectorDotProduct v1 v1] else v1);
          v3 = (if m aMatrix ! 3 ! 3 > 1 then v2[3 := - (v2 ! 3)] else v2)
      in v3)"

fun pairs :: "nat list \<Rightarrow> nat list list" where
  \<comment> \<open>The addresses of the half edges, two by two: theHalfEdges[i][j].\<close>
  "pairs (a # b # cs) = [a, b] # pairs cs"
| "pairs _ = []"

definition bananaHalfEdge :: "nat list \<Rightarrow> nat list list \<Rightarrow> nat list \<Rightarrow> nat \<Rightarrow> nat \<Rightarrow> HEHalfEdge" where
  \<comment> \<open>theHalfEdges[i][j] of MakeBanana(): it runs from vertex j to the other vertex.\<close>
  "bananaHalfEdge theVertices theHalfEdges theFaces i j =
     freshHalfEdge
       \<lparr>itsTip := theVertices ! (1 - j),
        itsMate := theHalfEdges ! ((i + 1 + j) mod 3) ! (1 - j),
        itsCycle := theHalfEdges ! i ! (1 - j),
        itsFace := theFaces ! i\<rparr>"

definition MakeBanana ::
  "Matrix \<Rightarrow> Matrix \<Rightarrow> Matrix \<Rightarrow> DirichletDomain option \<Rightarrow> Allocator
     \<Rightarrow> ErrorText \<times> DirichletDomain option \<times> Allocator" where
  \<comment> \<open>The requests are made in the order of the source: the base structure, two vertices,
      six half edges, three faces, each node put at the head of its list.  When one is
      refused, FreeDirichletDomain() leaves NULL in the output location.\<close>
  "MakeBanana aMatrixA aMatrixB aMatrixC aDirichletDomain anAllocator =
     (if aDirichletDomain \<noteq> None
      then (Some ''MakeBanana() received a non-NULL output location.'', aDirichletDomain, anAllocator)
      else
        let theMatrices = [aMatrixA, aMatrixB, aMatrixC];
            theHalfspaces = map MakeHalfspaceInequality theMatrices
        in case getMemories 12 anAllocator of
             (None, al) \<Rightarrow> (Some ''Out of memory in MakeBanana().'', None, al)
           | (Some someAddresses, al) \<Rightarrow>
               let theVertices = take 2 (drop 1 someAddresses);
                   theHalfEdges = pairs (take 6 (drop 3 someAddresses));
                   theFaces = drop 9 someAddresses;
                   thePosition0 = VectorTernaryCrossProduct (theHalfspaces ! 0)
                                    (theHalfspaces ! 1) (theHalfspaces ! 2);
                   thePositions = [thePosition0, VectorNegate thePosition0];
                   vertex = (\<lambda>i. (theVertices ! i,
                              freshVertex\<lparr>itsRawPosition := thePositions ! i,
                                          itsOutboundHalfEdge := theHalfEdges ! 0 ! i\<rparr>));
                   halfEdge = (\<lambda>i j. (theHalfEdges ! i ! j,
                              bananaHalfEdge theVertices theHalfEdges theFaces i j));
                   face = (\<lambda>i. (theFaces ! i,
                              freshFace\<lparr>itsHalfEdge := theHalfEdges ! i ! 0,
                                        itsMatrix := theMatrices ! i,
                                        itsHalfspace := theHalfspaces ! i\<rparr>))
               in (None,
                   Some \<lparr>itsVertexList = [vertex 1, vertex 0],
                         itsHalfEdgeList = [halfEdge 2 1, halfEdge 2 0, halfEdge 1 1,
                                            halfEdge 1 0, halfEdge 0 1, halfEdge 0 0],
                         itsFaceList = [face 2, face 1, face 0],
                         itsSpaceType = SpaceNone,
                         itsOutradius = 0\<rparr>,
                   al))"

subsection \<open>CurvedSpacesDirichlet.c: IntersectWithHalfspace\<close>

definition theMemoryError :: string where
  "theMemoryError = ''Memory request failed in IntersectWithHalfspace().''"

definition classifyVertex :: "Vector \<Rightarrow> HEVertex \<Rightarrow> HEVertex" where
  \<comment> \<open>The body of the loop that evaluates the halfspace equation on all vertices.\<close>
  "classifyVertex theHalfspace theVertex =
     (let theDotProduct = VectorDotProduct theHalfspace (itsRawPosition theVertex)
      in if theDotProduct < - VERTEX_HALFSPACE_EPSILON
         then theVertex\<lparr>itsHalfspaceStatus := VertexInsideHalfspace\<rparr>
         else if theDotProduct > VERTEX_HALFSPACE_EPSILON
         then theVertex\<lparr>itsHalfspaceStatus := VertexOutsideHalfspace\<rparr>
         else theVertex\<lparr>itsHalfspaceStatus := VertexOnBoundary\<rparr>)"

definition classifyVertices :: "Vector \<Rightarrow> HEPolyhedron \<Rightarrow> HEPolyhedron" where
  "classifyVertices theHalfspace P =
     P\<lparr>itsVertexList := map (\<lambda>(a, theVertex). (a, classifyVertex theHalfspace theVertex))
                           (itsVertexList P)\<rparr>"

definition theCutIsNontrivial :: "HEPolyhedron \<Rightarrow> bool" where
  \<comment> \<open>The flag after that loop: some vertex lies outside the halfspace.\<close>
  "theCutIsNontrivial P =
     (\<exists>(a, theVertex) \<in> set (itsVertexList P).
        itsHalfspaceStatus theVertex = VertexOutsideHalfspace)"

definition splitEdge ::
  "Vector \<Rightarrow> nat \<Rightarrow> HEPolyhedron \<times> Allocator \<Rightarrow> (ErrorText \<times> HEPolyhedron \<times> Allocator) option" where
  \<comment> \<open>The body of the loop over the half edges that introduces a new vertex wherever the
      slicing halfspace crosses an edge.\<close>
  "splitEdge theHalfspace theHalfEdge1 = (\<lambda>(P, al).
     do {
       e1 \<leftarrow> readHalfEdge P theHalfEdge1;
       let theHalfEdge2 = itsMate e1;
       let theVertex1 = itsTip e1;
       e2 \<leftarrow> readHalfEdge P theHalfEdge2;
       let theVertex2 = itsTip e2;
       v1 \<leftarrow> readVertex P theVertex1;
       if itsHalfspaceStatus v1 \<noteq> VertexInsideHalfspace then Some (None, P, al)
       else do {
         v2 \<leftarrow> readVertex P theVertex2;
         if itsHalfspaceStatus v2 \<noteq> VertexOutsideHalfspace then Some (None, P, al)
         else
           case GET_MEMORY al of
             (None, al) \<Rightarrow> Some (Some theMemoryError, P, al)
           | (Some theNewVertex, al) \<Rightarrow>
           do {
             let P = P\<lparr>itsVertexList := (theNewVertex, freshVertex) # itsVertexList P\<rparr>;
             e1 \<leftarrow> readHalfEdge P theHalfEdge1;
             f1 \<leftarrow> readFace P (itsFace e1);
             e2 \<leftarrow> readHalfEdge P theHalfEdge2;
             f2 \<leftarrow> readFace P (itsFace e2);
             P \<leftarrow> writeVertex theNewVertex
                   (\<lambda>v. v\<lparr>itsRawPosition := VectorTernaryCrossProduct (itsHalfspace f1)
                                               (itsHalfspace f2) theHalfspace,
                            itsHalfspaceStatus := VertexOnBoundary\<rparr>) P;
             case GET_MEMORY al of
               (None, al) \<Rightarrow> Some (Some theMemoryError, P, al)
             | (Some theHalfEdge1a, al) \<Rightarrow>
             do {
               let P = P\<lparr>itsHalfEdgeList := (theHalfEdge1a, freshHalfEdge) # itsHalfEdgeList P\<rparr>;
               case GET_MEMORY al of
                 (None, al) \<Rightarrow> Some (Some theMemoryError, P, al)
               | (Some theHalfEdge2a, al) \<Rightarrow>
               do {
                 let P = P\<lparr>itsHalfEdgeList := (theHalfEdge2a, freshHalfEdge) # itsHalfEdgeList P\<rparr>;
                 let theHalfEdge1b = theHalfEdge1;
                 let theHalfEdge2b = theHalfEdge2;
                 e1b \<leftarrow> readHalfEdge P theHalfEdge1b;
                 P \<leftarrow> writeHalfEdge theHalfEdge1a (\<lambda>e. e\<lparr>itsTip := itsTip e1b\<rparr>) P;
                 e2b \<leftarrow> readHalfEdge P theHalfEdge2b;
                 P \<leftarrow> writeHalfEdge theHalfEdge2a (\<lambda>e. e\<lparr>itsTip := itsTip e2b\<rparr>) P;
                 P \<leftarrow> writeHalfEdge theHalfEdge1b (\<lambda>e. e\<lparr>itsTip := theNewVertex\<rparr>) P;
                 P \<leftarrow> writeHalfEdge theHalfEdge2b (\<lambda>e. e\<lparr>itsTip := theNewVertex\<rparr>) P;
                 P \<leftarrow> writeHalfEdge theHalfEdge1a (\<lambda>e. e\<lparr>itsMate := theHalfEdge2b\<rparr>) P;
                 P \<leftarrow> writeHalfEdge theHalfEdge2a (\<lambda>e. e\<lparr>itsMate := theHalfEdge1b\<rparr>) P;
                 P \<leftarrow> writeHalfEdge theHalfEdge1b (\<lambda>e. e\<lparr>itsMate := theHalfEdge2a\<rparr>) P;
                 P \<leftarrow> writeHalfEdge theHalfEdge2b (\<lambda>e. e\<lparr>itsMate := theHalfEdge1a\<rparr>) P;
                 e1b \<leftarrow> readHalfEdge P theHalfEdge1b;
                 P \<leftarrow> writeHalfEdge theHalfEdge1a (\<lambda>e. e\<lparr>itsCycle := itsCycle e1b\<rparr>) P;
                 e2b \<leftarrow> readHalfEdge P theHalfEdge2b;
                 P \<leftarrow> writeHalfEdge theHalfEdge2a (\<lambda>e. e\<lparr>itsCycle := itsCycle e2b\<rparr>) P;
                 P \<leftarrow> writeHalfEdge theHalfEdge1b (\<lambda>e. e\<lparr>itsCycle := theHalfEdge1a\<rparr>) P;
                 P \<leftarrow> writeHalfEdge theHalfEdge2b (\<lambda>e. e\<lparr>itsCycle := theHalfEdge2a\<rparr>) P;
                 e1b \<leftarrow> readHalfEdge P theHalfEdge1b;
                 P \<leftarrow> writeHalfEdge theHalfEdge1a (\<lambda>e. e\<lparr>itsFace := itsFace e1b\<rparr>) P;
                 e2b \<leftarrow> readHalfEdge P theHalfEdge2b;
                 P \<leftarrow> writeHalfEdge theHalfEdge2a (\<lambda>e. e\<lparr>itsFace := itsFace e2b\<rparr>) P;
                 P \<leftarrow> writeVertex theNewVertex (\<lambda>v. v\<lparr>itsOutboundHalfEdge := theHalfEdge1a\<rparr>) P;
                 Some (None, P, al)
               }
             }
           }
       }
     })"

partial_function (option) scanCycle ::
  "HEPolyhedron \<Rightarrow> nat \<Rightarrow> nat \<Rightarrow> nat option \<times> nat option \<Rightarrow> (nat option \<times> nat option) option" where
  \<comment> \<open>The do-while loop that looks, around the face whose first half edge is theStart,
      for theGoingOutEdge and theGoingInEdge (the pair it carries), from theHalfEdge on.\<close>
  "scanCycle P theStart theHalfEdge theEdges =
     (case readHalfEdge P theHalfEdge of
        None \<Rightarrow> None
      | Some e \<Rightarrow>
          (case readVertex P (itsTip e) of
             None \<Rightarrow> None
           | Some theTip \<Rightarrow>
               (case (if itsHalfspaceStatus theTip = VertexOnBoundary
                      then (case readHalfEdge P (itsCycle e) of
                              None \<Rightarrow> None
                            | Some c \<Rightarrow>
                                (case readVertex P (itsTip c) of
                                   None \<Rightarrow> None
                                 | Some theNextTip \<Rightarrow>
                                     (case itsHalfspaceStatus theNextTip of
                                        VertexInsideHalfspace \<Rightarrow> Some (fst theEdges, Some theHalfEdge)
                                      | VertexOnBoundary \<Rightarrow> Some theEdges
                                      | VertexOutsideHalfspace \<Rightarrow> Some (Some theHalfEdge, snd theEdges))))
                      else Some theEdges) of
                  None \<Rightarrow> None
                | Some theEdges' \<Rightarrow>
                    if itsCycle e \<noteq> theStart then scanCycle P theStart (itsCycle e) theEdges'
                    else Some theEdges')))"

partial_function (option) setOuterFace :: "nat \<Rightarrow> nat \<Rightarrow> nat \<Rightarrow> HEPolyhedron \<Rightarrow> HEPolyhedron option" where
  \<comment> \<open>The do-while loop that sets itsFace to theOuterFace around the cycle of
      theOuterHalfEdge, from theHalfEdge on.\<close>
  "setOuterFace theOuterHalfEdge theOuterFace theHalfEdge P =
     (case writeHalfEdge theHalfEdge (\<lambda>e. e\<lparr>itsFace := theOuterFace\<rparr>) P of
        None \<Rightarrow> None
      | Some P' \<Rightarrow>
          (case readHalfEdge P' theHalfEdge of
             None \<Rightarrow> None
           | Some e \<Rightarrow>
               if itsCycle e \<noteq> theOuterHalfEdge
               then setOuterFace theOuterHalfEdge theOuterFace (itsCycle e) P'
               else Some P'))"

definition splitFace ::
  "nat \<Rightarrow> HEPolyhedron \<times> Allocator \<Rightarrow> (ErrorText \<times> HEPolyhedron \<times> Allocator) option" where
  \<comment> \<open>The body of the loop over the faces that introduces a new edge wherever the
      slicing halfspace crosses a face.\<close>
  "splitFace theFace = (\<lambda>(P, al).
     do {
       f \<leftarrow> readFace P theFace;
       theEdges \<leftarrow> scanCycle P (itsHalfEdge f) (itsHalfEdge f) (None, None);
       case theEdges of
         (Some theGoingOutEdge, Some theGoingInEdge) \<Rightarrow>
           (case GET_MEMORY al of
              (None, al) \<Rightarrow> Some (Some theMemoryError, P, al)
            | (Some theInnerHalfEdge, al) \<Rightarrow>
            do {
              let P = P\<lparr>itsHalfEdgeList := (theInnerHalfEdge, freshHalfEdge) # itsHalfEdgeList P\<rparr>;
              case GET_MEMORY al of
                (None, al) \<Rightarrow> Some (Some theMemoryError, P, al)
              | (Some theOuterHalfEdge, al) \<Rightarrow>
              do {
                let P = P\<lparr>itsHalfEdgeList := (theOuterHalfEdge, freshHalfEdge) # itsHalfEdgeList P\<rparr>;
                case GET_MEMORY al of
                  (None, al) \<Rightarrow> Some (Some theMemoryError, P, al)
                | (Some theOuterFace, al) \<Rightarrow>
                do {
                  let P = P\<lparr>itsFaceList := (theOuterFace, freshFace) # itsFaceList P\<rparr>;
                  let theInnerFace = theFace;
                  eIn \<leftarrow> readHalfEdge P theGoingInEdge;
                  P \<leftarrow> writeHalfEdge theInnerHalfEdge (\<lambda>e. e\<lparr>itsTip := itsTip eIn\<rparr>) P;
                  eOut \<leftarrow> readHalfEdge P theGoingOutEdge;
                  P \<leftarrow> writeHalfEdge theOuterHalfEdge (\<lambda>e. e\<lparr>itsTip := itsTip eOut\<rparr>) P;
                  P \<leftarrow> writeHalfEdge theInnerHalfEdge (\<lambda>e. e\<lparr>itsMate := theOuterHalfEdge\<rparr>) P;
                  P \<leftarrow> writeHalfEdge theOuterHalfEdge (\<lambda>e. e\<lparr>itsMate := theInnerHalfEdge\<rparr>) P;
                  eIn \<leftarrow> readHalfEdge P theGoingInEdge;
                  P \<leftarrow> writeHalfEdge theInnerHalfEdge (\<lambda>e. e\<lparr>itsCycle := itsCycle eIn\<rparr>) P;
                  eOut \<leftarrow> readHalfEdge P theGoingOutEdge;
                  P \<leftarrow> writeHalfEdge theOuterHalfEdge (\<lambda>e. e\<lparr>itsCycle := itsCycle eOut\<rparr>) P;
                  P \<leftarrow> writeHalfEdge theGoingOutEdge (\<lambda>e. e\<lparr>itsCycle := theInnerHalfEdge\<rparr>) P;
                  P \<leftarrow> writeHalfEdge theGoingInEdge (\<lambda>e. e\<lparr>itsCycle := theOuterHalfEdge\<rparr>) P;
                  P \<leftarrow> writeHalfEdge theInnerHalfEdge (\<lambda>e. e\<lparr>itsFace := theInnerFace\<rparr>) P;
                  P \<leftarrow> writeFace theInnerFace (\<lambda>f. f\<lparr>itsHalfEdge := theInnerHalfEdge\<rparr>) P;
                  P \<leftarrow> setOuterFace theOuterHalfEdge theOuterFace theOuterHalfEdge P;
                  P \<leftarrow> writeFace theOuterFace (\<lambda>f. f\<lparr>itsHalfEdge := theOuterHalfEdge\<rparr>) P;
                  Some (None, P, al)
                }
              }
            })
       | _ \<Rightarrow> Some (None, P, al)
     })"

definition markHalfEdge :: "nat \<Rightarrow> HEPolyhedron \<Rightarrow> HEPolyhedron option" where
  \<comment> \<open>The body of the loop that marks for deletion the half edges and faces incident
      to a vertex outside the halfspace.\<close>
  "markHalfEdge theHalfEdge P =
     do {
       e \<leftarrow> readHalfEdge P theHalfEdge;
       theTip \<leftarrow> readVertex P (itsTip e);
       isIncident \<leftarrow>
         (if itsHalfspaceStatus theTip = VertexOutsideHalfspace then Some True
          else do {
            theMate \<leftarrow> readHalfEdge P (itsMate e);
            theMateTip \<leftarrow> readVertex P (itsTip theMate);
            Some (itsHalfspaceStatus theMateTip = VertexOutsideHalfspace)
          });
       if isIncident
       then do {
         P \<leftarrow> writeHalfEdge theHalfEdge (\<lambda>e. e\<lparr>itsDeletionFlag := True\<rparr>) P;
         e \<leftarrow> readHalfEdge P theHalfEdge;
         writeFace (itsFace e) (\<lambda>f. f\<lparr>itsFaceDeletionFlag := True\<rparr>) P
       }
       else writeHalfEdge theHalfEdge (\<lambda>e. e\<lparr>itsDeletionFlag := False\<rparr>) P
     }"

partial_function (option) seeSurvivingHalfEdge :: "nat \<Rightarrow> HEPolyhedron \<Rightarrow> HEPolyhedron option" where
  \<comment> \<open>\<^verbatim>\<open>while (theVertex->itsOutboundHalfEdge->itsDeletionFlag) ...\<close>\<close>
  "seeSurvivingHalfEdge theVertex P =
     (case readVertex P theVertex of
        None \<Rightarrow> None
      | Some v \<Rightarrow>
          (case readHalfEdge P (itsOutboundHalfEdge v) of
             None \<Rightarrow> None
           | Some e \<Rightarrow>
               if itsDeletionFlag e
               then (case readHalfEdge P (itsMate e) of
                       None \<Rightarrow> None
                     | Some theMate \<Rightarrow>
                         (case writeVertex theVertex
                                 (\<lambda>v. v\<lparr>itsOutboundHalfEdge := itsCycle theMate\<rparr>) P of
                            None \<Rightarrow> None
                          | Some P' \<Rightarrow> seeSurvivingHalfEdge theVertex P'))
               else Some P))"

definition fixOutboundHalfEdge :: "nat \<Rightarrow> HEPolyhedron \<Rightarrow> HEPolyhedron option" where
  \<comment> \<open>The body of the loop that makes all surviving vertices see a surviving half edge.\<close>
  "fixOutboundHalfEdge theVertex P =
     do {
       v \<leftarrow> readVertex P theVertex;
       if itsHalfspaceStatus v \<noteq> VertexOutsideHalfspace
       then seeSurvivingHalfEdge theVertex P
       else Some P
     }"

partial_function (option) skipDeletedHalfEdges :: "nat \<Rightarrow> HEPolyhedron \<Rightarrow> HEPolyhedron option" where
  \<comment> \<open>\<^verbatim>\<open>while (theHalfEdge->itsCycle->itsDeletionFlag) ...\<close>\<close>
  "skipDeletedHalfEdges theHalfEdge P =
     (case readHalfEdge P theHalfEdge of
        None \<Rightarrow> None
      | Some e \<Rightarrow>
          (case readHalfEdge P (itsCycle e) of
             None \<Rightarrow> None
           | Some c \<Rightarrow>
               if itsDeletionFlag c
               then (case readHalfEdge P (itsMate c) of
                       None \<Rightarrow> None
                     | Some theMate \<Rightarrow>
                         (case writeHalfEdge theHalfEdge (\<lambda>e. e\<lparr>itsCycle := itsCycle theMate\<rparr>) P of
                            None \<Rightarrow> None
                          | Some P' \<Rightarrow> skipDeletedHalfEdges theHalfEdge P'))
               else Some P))"

definition installNewFace :: "nat \<Rightarrow> nat \<Rightarrow> HEPolyhedron \<Rightarrow> HEPolyhedron option" where
  \<comment> \<open>The body of the loop that installs the new face.\<close>
  "installNewFace theNewFace theHalfEdge P =
     do {
       e \<leftarrow> readHalfEdge P theHalfEdge;
       if itsDeletionFlag e then Some P
       else do {
         f \<leftarrow> readFace P (itsFace e);
         if \<not> itsFaceDeletionFlag f then Some P
         else do {
           P \<leftarrow> writeHalfEdge theHalfEdge (\<lambda>e. e\<lparr>itsFace := theNewFace\<rparr>) P;
           P \<leftarrow> writeFace theNewFace (\<lambda>f. f\<lparr>itsHalfEdge := theHalfEdge\<rparr>) P;
           skipDeletedHalfEdges theHalfEdge P
         }
       }
     }"

definition deleteExcluded :: "HEPolyhedron \<Rightarrow> HEPolyhedron" where
  \<comment> \<open>The three loops that free the excluded vertices, half edges and faces.\<close>
  "deleteExcluded P =
     P\<lparr>itsVertexList :=
          filter (\<lambda>(a, v). itsHalfspaceStatus v \<noteq> VertexOutsideHalfspace) (itsVertexList P),
        itsHalfEdgeList := filter (\<lambda>(a, e). \<not> itsDeletionFlag e) (itsHalfEdgeList P),
        itsFaceList := filter (\<lambda>(a, f). \<not> itsFaceDeletionFlag f) (itsFaceList P)\<rparr>"

definition IntersectWithHalfspace ::
  "DirichletDomain \<Rightarrow> Matrix \<Rightarrow> Allocator \<Rightarrow> (ErrorText \<times> DirichletDomain \<times> Allocator) option" where
  \<comment> \<open>\<open>None\<close>: the call does not return (undefined behaviour or an endless loop).
      Otherwise the error text returned, the domain and the allocator as the call leaves
      them.\<close>
  "IntersectWithHalfspace aDirichletDomain aMatrix anAllocator =
     (if MatrixIsIdentity aMatrix then Some (None, aDirichletDomain, anAllocator)
      else
        let theHalfspace = MakeHalfspaceInequality aMatrix;
            P = classifyVertices theHalfspace aDirichletDomain
        in if \<not> theCutIsNontrivial P then Some (None, P, anAllocator)
           else
             case forEachNodeOrError (splitEdge theHalfspace) (map fst (itsHalfEdgeList P))
                    (P, anAllocator) of
               None \<Rightarrow> None
             | Some (Some anError, P, al) \<Rightarrow> Some (Some anError, P, al)
             | Some (None, P, al) \<Rightarrow>
             (case forEachNodeOrError splitFace (map fst (itsFaceList P)) (P, al) of
                None \<Rightarrow> None
              | Some (Some anError, P, al) \<Rightarrow> Some (Some anError, P, al)
              | Some (None, P, al) \<Rightarrow>
              (case GET_MEMORY al of
                 (None, al) \<Rightarrow> Some (Some theMemoryError, P, al)
               | (Some theNewFace, al) \<Rightarrow>
                 do {
                   let P = P\<lparr>itsFaceList := (theNewFace, freshFace) # itsFaceList P\<rparr>;
                   let P = P\<lparr>itsFaceList :=
                              map (\<lambda>(a, f). (a, f\<lparr>itsFaceDeletionFlag := False\<rparr>)) (itsFaceList P)\<rparr>;
                   P \<leftarrow> forEachNode markHalfEdge (map fst (itsHalfEdgeList P)) P;
                   P \<leftarrow> forEachNode fixOutboundHalfEdge (map fst (itsVertexList P)) P;
                   P \<leftarrow> forEachNode (installNewFace theNewFace) (map fst (itsHalfEdgeList P)) P;
                   P \<leftarrow> writeFace theNewFace
                         (\<lambda>f. f\<lparr>itsHalfspace := theHalfspace, itsMatrix := aMatrix\<rparr>) P;
                   Some (None, deleteExcluded P, al)
                 })))"

subsection \<open>CurvedSpacesDirichlet.c: MakeLens\<close>

definition atan2 :: "real \<Rightarrow> real \<Rightarrow> real" where
  \<comment> \<open>atan2() of the C library: the angle of the point (x, y), in the interval from
      \<open>-pi\<close> to \<open>pi\<close>, and 0 at the origin.\<close>
  "atan2 y x = Arg (Complex x y)"

definition lensHalfEdge0 :: "nat \<Rightarrow> nat list \<Rightarrow> nat list list \<Rightarrow> nat list \<Rightarrow> nat \<Rightarrow> HEHalfEdge" where
  \<comment> \<open>theHalfEdges[i][0] of MakeLens(), on face 0: it runs forward.\<close>
  "lensHalfEdge0 n theVertices theHalfEdges theFaces i =
     freshHalfEdge
       \<lparr>itsTip := theVertices ! ((i + 1) mod n),
        itsMate := theHalfEdges ! i ! 1,
        itsCycle := theHalfEdges ! ((i + 1) mod n) ! 0,
        itsFace := theFaces ! 0\<rparr>"

definition lensHalfEdge1 :: "nat \<Rightarrow> nat list \<Rightarrow> nat list list \<Rightarrow> nat list \<Rightarrow> nat \<Rightarrow> HEHalfEdge" where
  \<comment> \<open>theHalfEdges[i][1] of MakeLens(), on face 1: it runs backwards.\<close>
  "lensHalfEdge1 n theVertices theHalfEdges theFaces i =
     freshHalfEdge
       \<lparr>itsTip := theVertices ! i,
        itsMate := theHalfEdges ! i ! 0,
        itsCycle := theHalfEdges ! ((i + n - 1) mod n) ! 1,
        itsFace := theFaces ! 1\<rparr>"

definition lensOfOrder ::
  "nat \<Rightarrow> Matrix \<Rightarrow> Matrix \<Rightarrow> Allocator \<Rightarrow> ErrorText \<times> DirichletDomain option \<times> Allocator" where
  \<comment> \<open>MakeLens() from the allocation of the base structure on, n being known.  The
      requests are made in the order of the source: the base structure, the array
      theVertices, n vertices, the array theHalfEdges, 2n half edges, two faces.\<close>
  "lensOfOrder n aMatrixA aMatrixB anAllocator =
     (case getMemories (1 + (1 + n) + (1 + 2 * n) + 2) anAllocator of
        (Some someAddresses, al) \<Rightarrow>
          let theVertices = take n (drop 2 someAddresses);
              theHalfEdges = pairs (take (2 * n) (drop (3 + n) someAddresses));
              theFaces = drop (3 + 3 * n) someAddresses;
              vertex = (\<lambda>i. (theVertices ! i,
                         freshVertex\<lparr>itsRawPosition :=
                                       [cos (real i * 2 * PI / real n),
                                        sin (real i * 2 * PI / real n), 0, 0],
                                     itsOutboundHalfEdge := theHalfEdges ! i ! 0\<rparr>));
              halfEdges = (\<lambda>i. [(theHalfEdges ! i ! 1,
                                  lensHalfEdge1 n theVertices theHalfEdges theFaces i),
                                 (theHalfEdges ! i ! 0,
                                  lensHalfEdge0 n theVertices theHalfEdges theFaces i)])
          in (None,
              Some \<lparr>itsVertexList = map vertex (rev [0..<n]),
                    itsHalfEdgeList = concat (map halfEdges (rev [0..<n])),
                    itsFaceList =
                      [(theFaces ! 1,
                        freshFace\<lparr>itsHalfEdge := theHalfEdges ! 0 ! 1,
                                  itsHalfspace := MakeHalfspaceInequality aMatrixB,
                                  itsMatrix := aMatrixB\<rparr>),
                       (theFaces ! 0,
                        freshFace\<lparr>itsHalfEdge := theHalfEdges ! 0 ! 0,
                                  itsHalfspace := MakeHalfspaceInequality aMatrixA,
                                  itsMatrix := aMatrixA\<rparr>)],
                    itsSpaceType = SpaceNone,
                    itsOutradius = 0\<rparr>,
              al)
      | (None, al) \<Rightarrow> (Some ''Out of memory in MakeLens().'', None, al))"

definition MakeLens ::
  "Matrix \<Rightarrow> Matrix \<Rightarrow> DirichletDomain option \<Rightarrow> Allocator
     \<Rightarrow> (ErrorText \<times> DirichletDomain option \<times> Allocator) option" where
  \<comment> \<open>\<open>None\<close>: the conversion of floor(theApproximateN + 0.5) to unsigned int is
      undefined behaviour, the value being infinite (a zero angle) or too large.\<close>
  "MakeLens aMatrixA aMatrixB aDirichletDomain anAllocator =
     (if aDirichletDomain \<noteq> None
      then Some (Some ''MakeLens() received a non-NULL output location.'', aDirichletDomain, anAllocator)
      else if m aMatrixA ! 3 ! 3 = 1
      then Some (lensOfOrder 4 aMatrixA aMatrixB anAllocator)
      else if m aMatrixA ! 3 ! 3 < 1
      then
        if m aMatrixA ! 0 ! 2 \<noteq> 0 \<or> m aMatrixA ! 0 ! 3 \<noteq> 0
           \<or> m aMatrixA ! 1 ! 2 \<noteq> 0 \<or> m aMatrixA ! 1 ! 3 \<noteq> 0
           \<or> m aMatrixA ! 2 ! 0 \<noteq> 0 \<or> m aMatrixA ! 2 ! 1 \<noteq> 0
           \<or> m aMatrixA ! 3 ! 0 \<noteq> 0 \<or> m aMatrixA ! 3 ! 1 \<noteq> 0
        then Some (Some ''MakeLens() confused by potential lens space.'', None, anAllocator)
        else
          let theAngle = \<bar>atan2 (m aMatrixA ! 3 ! 2) (m aMatrixA ! 3 ! 3)\<bar>
          in if theAngle = 0 then None
             else
               let theApproximateN = (2 * PI) / theAngle
               in if theApproximateN + 1 / 2 \<ge> 2 ^ 32 then None
                  else
                    let n = nat \<lfloor>theApproximateN + 1 / 2\<rfloor>
                    in if \<bar>theApproximateN - real n\<bar> > ORDER_EPSILON
                       then Some (Some ''MakeLens() couldn't deduce order of potential lens space.'',
                                  None, anAllocator)
                       else if n < 3
                       then Some (Some ''MakeLens() expected a lens space of order at least 3.'',
                                  None, anAllocator)
                       else Some (lensOfOrder n aMatrixA aMatrixB anAllocator)
      else Some (Some ''MakeLens() can't handle hyperbolic slab spaces.'', None, anAllocator))"

subsection \<open>CurvedSpacesDirichlet.c: the faces' colors, centers and walls\<close>

fun colorTheMate :: "Matrix \<Rightarrow> 32 word \<Rightarrow> (nat \<times> HEFace) list \<Rightarrow> (nat \<times> HEFace) list" where
  \<comment> \<open>The inner loop of AssignFaceColors(), over the faces that follow theFace: the first
      one whose matrix matches theInverseMatrix gets the index of theFace.\<close>
  "colorTheMate theInverseMatrix anIndex [] = []"
| "colorTheMate theInverseMatrix anIndex ((a, theMate) # someFaces) =
     (if MatrixEquality (itsMatrix theMate) theInverseMatrix MATE_MATRIX_EPSILON
      then (a, theMate\<lparr>itsColorIndex := anIndex\<rparr>) # someFaces
      else (a, theMate) # colorTheMate theInverseMatrix anIndex someFaces)"

lemma length_colorTheMate [simp]:
  "length (colorTheMate theInverseMatrix anIndex someFaces) = length someFaces"
  by (induction someFaces) auto

fun indexTheFaces :: "Kernel \<Rightarrow> 32 word \<Rightarrow> (nat \<times> HEFace) list \<Rightarrow> 32 word \<times> (nat \<times> HEFace) list" where
  \<comment> \<open>The second loop of AssignFaceColors(); it carries theCount.\<close>
  "indexTheFaces K theCount [] = (theCount, [])"
| "indexTheFaces K theCount ((a, theFace) # someFaces) =
     (if itsColorIndex theFace = 0xFFFFFFFF
      then
        let (theCount', someFaces') =
              indexTheFaces K (theCount + 1)
                (colorTheMate (MatrixGeometricInverse K (itsMatrix theFace)) theCount someFaces)
        in (theCount', (a, theFace\<lparr>itsColorIndex := theCount\<rparr>) # someFaces')
      else
        let (theCount', someFaces') = indexTheFaces K theCount someFaces
        in (theCount', (a, theFace) # someFaces'))"

definition colorTheFace :: "Kernel \<Rightarrow> 32 word \<Rightarrow> HEFace \<Rightarrow> HEFace" where
  \<comment> \<open>The body of the third loop of AssignFaceColors().\<close>
  "colorTheFace K theCount theFace =
     (let theColorParameter = real (unat (itsColorIndex theFace)) / real (unat theCount)
      in theFace
           \<lparr>itsColorRGBA :=
              HSLAtoRGBA K \<lparr>hslaH = theColorParameter, hslaS = 3 / 10, hslaL = 1 / 2, hslaA = 1\<rparr>,
            itsColorGreyscale := (theColorParameter + 4) / 5\<rparr>)"

definition AssignFaceColors :: "Kernel \<Rightarrow> DirichletDomain \<Rightarrow> DirichletDomain" where
  "AssignFaceColors K aDirichletDomain =
     (let theMarkedFaces =
            map (\<lambda>(a, theFace). (a, theFace\<lparr>itsColorIndex := 0xFFFFFFFF\<rparr>))
              (itsFaceList aDirichletDomain);
          (theCount, theIndexedFaces) = indexTheFaces K 0 theMarkedFaces
      in aDirichletDomain
           \<lparr>itsFaceList := map (\<lambda>(a, theFace). (a, colorTheFace K theCount theFace))
                              theIndexedFaces\<rparr>)"

definition ComputeFaceCenters :: "Kernel \<Rightarrow> DirichletDomain \<Rightarrow> DirichletDomain" where
  \<comment> \<open>The error text that VectorNormalize() returns is dropped, as in the source.\<close>
  "ComputeFaceCenters K aDirichletDomain =
     aDirichletDomain
       \<lparr>itsFaceList :=
          map (\<lambda>(a, theFace).
                 let c0 = map (\<lambda>i. (1 / 2) * m (itsMatrix theFace) ! 3 ! i) [0, 1, 2, 3];
                     c1 = c0[3 := c0 ! 3 + 1 / 2];
                     c2 = snd (VectorNormalize K c1 SpaceSpherical)
                 in (a, theFace\<lparr>itsRawCenter := c2,
                                 itsNormalizedCenter :=
                                   snd (VectorNormalize K c2 (itsSpaceType aDirichletDomain))\<rparr>))
            (itsFaceList aDirichletDomain)\<rparr>"

partial_function (option) measureWalls ::
  "Kernel \<Rightarrow> Vector \<Rightarrow> nat \<Rightarrow> nat \<Rightarrow> HEPolyhedron \<times> real \<Rightarrow> (HEPolyhedron \<times> real) option" where
  \<comment> \<open>The do-while loop of ComputeWallDimensions() around the face whose first half edge
      is theStart, from theHalfEdge on; it carries theMaxBase.\<close>
  "measureWalls K theFaceCenter theStart theHalfEdge s =
     (case readHalfEdge (fst s) theHalfEdge of
        None \<Rightarrow> None
      | Some e \<Rightarrow>
          (case readVertex (fst s) (itsTip e) of
             None \<Rightarrow> None
           | Some theTailVertex \<Rightarrow>
               (case readHalfEdge (fst s) (itsCycle e) of
                  None \<Rightarrow> None
                | Some c \<Rightarrow>
                    (case readVertex (fst s) (itsTip c) of
                       None \<Rightarrow> None
                     | Some theTipVertex \<Rightarrow>
                         let theTail = itsNormalizedPosition theTailVertex;
                             theTip = itsNormalizedPosition theTipVertex;
                             theSide0 = VectorGeometricDistance2 K theTail theTip;
                             theSide1 = VectorGeometricDistance2 K theTail theFaceCenter;
                             theSide2 = VectorGeometricDistance2 K theTip theFaceCenter;
                             s' = (1 / 2) * (theSide0 + theSide1 + theSide2);
                             theArea = sqrt (s' * (s' - theSide0) * (s' - theSide1) * (s' - theSide2))
                         in (case writeHalfEdge (itsCycle e)
                                    (\<lambda>e. e\<lparr>itsBase := theSide0,
                                             itsAltitude := 2 * theArea / theSide0\<rparr>) (fst s) of
                               None \<Rightarrow> None
                             | Some P' \<Rightarrow>
                                 let theMaxBase = (if snd s < theSide0 then theSide0 else snd s)
                                 in if itsCycle e \<noteq> theStart
                                    then measureWalls K theFaceCenter theStart (itsCycle e)
                                           (P', theMaxBase)
                                    else Some (P', theMaxBase))))))"

definition ComputeWallDimensions :: "Kernel \<Rightarrow> DirichletDomain \<Rightarrow> DirichletDomain option" where
  "ComputeWallDimensions K aDirichletDomain =
     do {
       (P, theMaxBase) \<leftarrow>
         forEachNode
           (\<lambda>theFace s. do {
              f \<leftarrow> readFace (fst s) theFace;
              measureWalls K (itsNormalizedCenter f) (itsHalfEdge f) (itsHalfEdge f) s
            })
           (map fst (itsFaceList aDirichletDomain)) (aDirichletDomain, 0);
       Some (if theMaxBase > 0
             then P\<lparr>itsHalfEdgeList :=
                      map (\<lambda>(a, e). (a, e\<lparr>itsBase := itsBase e / theMaxBase,
                                            itsAltitude := itsAltitude e / theMaxBase\<rparr>))
                        (itsHalfEdgeList P)\<rparr>
             else P)
     }"

subsection \<open>CurvedSpacesDirichlet.c: the vertex figures and the outradius\<close>

definition computeOuterPoint :: "Kernel \<Rightarrow> nat \<Rightarrow> HEPolyhedron \<Rightarrow> (ErrorText \<times> HEPolyhedron) option" where
  \<comment> \<open>The body of the first loop of ComputeVertexFigures().\<close>
  "computeOuterPoint K theHalfEdge P =
     do {
       e \<leftarrow> readHalfEdge P theHalfEdge;
       theMate \<leftarrow> readHalfEdge P (itsMate e);
       theTailVertex \<leftarrow> readVertex P (itsTip theMate);
       theTipVertex \<leftarrow> readVertex P (itsTip e);
       let theTail = itsRawPosition theTailVertex;
       let theTip = itsRawPosition theTipVertex;
       let theDotProduct = VectorDotProduct theTail theTip;
       let theComponent = ScalarTimesVector theDotProduct theTail;
       let theNormal = VectorDifference theTip theComponent;
       case VectorNormalize K theNormal SpaceSpherical of
         (Some anError, theNormal) \<Rightarrow> Some (Some anError, P)
       | (None, theNormal) \<Rightarrow>
           do {
             let theComponentParallel = ScalarTimesVector (cos VERTEX_FIGURE_SIZE) theTail;
             let theComponentPendicular = ScalarTimesVector (sin VERTEX_FIGURE_SIZE) theNormal;
             let theSum = VectorSum theComponentParallel theComponentPendicular;
             let theResult = VectorNormalize K theSum (itsSpaceType P);
             P \<leftarrow> writeHalfEdge theHalfEdge (\<lambda>e. e\<lparr>itsOuterPoint := snd theResult\<rparr>) P;
             Some (fst theResult, P)
           }
     }"

partial_function (option) sumOuterPoints :: "nat \<Rightarrow> nat \<Rightarrow> nat \<Rightarrow> HEPolyhedron \<Rightarrow> HEPolyhedron option" where
  \<comment> \<open>The do-while loop around theVertex, whose outbound half edge is theStart, from
      theHalfEdge on.\<close>
  "sumOuterPoints theVertex theStart theHalfEdge P =
     (case readHalfEdge P theHalfEdge of
        None \<Rightarrow> None
      | Some e \<Rightarrow>
          (case writeVertex theVertex
                  (\<lambda>v. v\<lparr>itsCenterPoint := VectorSum (itsCenterPoint v) (itsOuterPoint e)\<rparr>) P of
             None \<Rightarrow> None
           | Some P' \<Rightarrow>
               (case readHalfEdge P' (itsMate e) of
                  None \<Rightarrow> None
                | Some theMate \<Rightarrow>
                    if itsCycle theMate \<noteq> theStart
                    then sumOuterPoints theVertex theStart (itsCycle theMate) P'
                    else Some P')))"

definition computeCenterPoint :: "Kernel \<Rightarrow> nat \<Rightarrow> HEPolyhedron \<Rightarrow> (ErrorText \<times> HEPolyhedron) option" where
  \<comment> \<open>The body of the second loop of ComputeVertexFigures().\<close>
  "computeCenterPoint K theVertex P =
     do {
       P \<leftarrow> writeVertex theVertex (\<lambda>v. v\<lparr>itsCenterPoint := [0, 0, 0, 0]\<rparr>) P;
       v \<leftarrow> readVertex P theVertex;
       P \<leftarrow> sumOuterPoints theVertex (itsOutboundHalfEdge v) (itsOutboundHalfEdge v) P;
       v \<leftarrow> readVertex P theVertex;
       let theResult = VectorNormalize K (itsCenterPoint v) (itsSpaceType P);
       P \<leftarrow> writeVertex theVertex (\<lambda>v. v\<lparr>itsCenterPoint := snd theResult\<rparr>) P;
       Some (fst theResult, P)
     }"

definition computeInnerPoint :: "Kernel \<Rightarrow> nat \<Rightarrow> HEPolyhedron \<Rightarrow> (ErrorText \<times> HEPolyhedron) option" where
  \<comment> \<open>The body of the third loop of ComputeVertexFigures().\<close>
  "computeInnerPoint K theHalfEdge P =
     do {
       e \<leftarrow> readHalfEdge P theHalfEdge;
       let theScaledPointA = ScalarTimesVector VERTEX_FIGURE_CUTOUT (itsOuterPoint e);
       theMate \<leftarrow> readHalfEdge P (itsMate e);
       theTailVertex \<leftarrow> readVertex P (itsTip theMate);
       let theScaledPointB = ScalarTimesVector (1 - VERTEX_FIGURE_CUTOUT) (itsCenterPoint theTailVertex);
       let theSum = VectorSum theScaledPointA theScaledPointB;
       let theResult = VectorNormalize K theSum (itsSpaceType P);
       P \<leftarrow> writeHalfEdge theHalfEdge (\<lambda>e. e\<lparr>itsInnerPoint := snd theResult\<rparr>) P;
       Some (fst theResult, P)
     }"

definition ComputeVertexFigures :: "Kernel \<Rightarrow> DirichletDomain \<Rightarrow> (ErrorText \<times> DirichletDomain) option" where
  "ComputeVertexFigures K aDirichletDomain =
     (case forEachNodeOrError (computeOuterPoint K) (map fst (itsHalfEdgeList aDirichletDomain))
             aDirichletDomain of
        None \<Rightarrow> None
      | Some (Some anError, P) \<Rightarrow> Some (Some anError, P)
      | Some (None, P) \<Rightarrow>
          (case forEachNodeOrError (computeCenterPoint K) (map fst (itsVertexList P)) P of
             None \<Rightarrow> None
           | Some (Some anError, P) \<Rightarrow> Some (Some anError, P)
           | Some (None, P) \<Rightarrow>
               forEachNodeOrError (computeInnerPoint K) (map fst (itsHalfEdgeList P)) P))"

definition ComputeOutradius :: "Kernel \<Rightarrow> DirichletDomain \<Rightarrow> DirichletDomain" where
  "ComputeOutradius K aDirichletDomain =
     aDirichletDomain
       \<lparr>itsOutradius :=
          foldl (\<lambda>theOutradius (a, theVertex).
                   let theDistance = VectorGeometricDistance K (itsNormalizedPosition theVertex)
                   in if theOutradius < theDistance then theDistance else theOutradius)
            0 (itsVertexList aDirichletDomain)\<rparr>"

definition DirichletDomainOutradius :: "DirichletDomain option \<Rightarrow> real" where
  "DirichletDomainOutradius aDirichletDomain =
     (case aDirichletDomain of Some P \<Rightarrow> itsOutradius P | None \<Rightarrow> PI)"

subsection \<open>CurvedSpacesDirichlet.c: ConstructDirichletDomain\<close>

definition firstIndex :: "(nat \<Rightarrow> bool) \<Rightarrow> nat \<Rightarrow> nat \<Rightarrow> nat" where
  \<comment> \<open>\<^verbatim>\<open>for (i = aStart; i < aLimit; i++) if (test(i)) break;\<close> leaves this value in i.\<close>
  "firstIndex aTest aStart aLimit =
     (case filter aTest [aStart..<aLimit] of [] \<Rightarrow> max aStart aLimit | i # _ \<Rightarrow> i)"

fun intersectWithAll ::
  "Matrix list \<Rightarrow> DirichletDomain \<Rightarrow> Allocator \<Rightarrow> (ErrorText \<times> DirichletDomain \<times> Allocator) option" where
  \<comment> \<open>The loop that intersects the domain with the halfspace of each matrix in turn.\<close>
  "intersectWithAll [] P al = Some (None, P, al)"
| "intersectWithAll (aMatrix # someMatrices) P al =
     (case IntersectWithHalfspace P aMatrix al of
        None \<Rightarrow> None
      | Some (Some anError, P', al') \<Rightarrow> Some (Some anError, P', al')
      | Some (None, P', al') \<Rightarrow> intersectWithAll someMatrices P' al')"

definition normalizePositions :: "Kernel \<Rightarrow> DirichletDomain \<Rightarrow> (ErrorText \<times> DirichletDomain) option" where
  \<comment> \<open>The loop that normalizes each vertex's position relative to the geometry.\<close>
  "normalizePositions K aDirichletDomain =
     forEachNodeOrError
       (\<lambda>theVertex P. do {
          v \<leftarrow> readVertex P theVertex;
          let theResult = VectorNormalize K (itsRawPosition v) (itsSpaceType P);
          P \<leftarrow> writeVertex theVertex (\<lambda>v. v\<lparr>itsNormalizedPosition := snd theResult\<rparr>) P;
          Some (fst theResult, P)
        })
       (map fst (itsVertexList aDirichletDomain)) aDirichletDomain"

definition normalizeRawPositions :: "Kernel \<Rightarrow> DirichletDomain \<Rightarrow> (ErrorText \<times> DirichletDomain) option" where
  \<comment> \<open>The loop that normalizes each vertex's raw position to the unit 3-sphere.\<close>
  "normalizeRawPositions K aDirichletDomain =
     forEachNodeOrError
       (\<lambda>theVertex P. do {
          v \<leftarrow> readVertex P theVertex;
          let theResult = VectorNormalize K (itsRawPosition v) SpaceSpherical;
          P \<leftarrow> writeVertex theVertex (\<lambda>v. v\<lparr>itsRawPosition := snd theResult\<rparr>) P;
          Some (fst theResult, P)
        })
       (map fst (itsVertexList aDirichletDomain)) aDirichletDomain"

definition finishDirichletDomain ::
  "Kernel \<Rightarrow> Matrix list \<Rightarrow> DirichletDomain \<Rightarrow> (ErrorText \<times> DirichletDomain) option" where
  \<comment> \<open>ConstructDirichletDomain() once all halfspaces are intersected: from recording
      the space type to computing the outradius.\<close>
  "finishDirichletDomain K someMatrices aDirichletDomain =
     (let P = aDirichletDomain
            \<lparr>itsSpaceType :=
               (if m (someMatrices ! 1) ! 3 ! 3 < 1 then SpaceSpherical
                else if m (someMatrices ! 1) ! 3 ! 3 = 1 then SpaceFlat
                else SpaceHyperbolic)\<rparr>
      in case normalizePositions K P of
           None \<Rightarrow> None
         | Some (Some anError, P) \<Rightarrow> Some (Some anError, P)
         | Some (None, P) \<Rightarrow>
             (case normalizeRawPositions K P of
                None \<Rightarrow> None
              | Some (Some anError, P) \<Rightarrow> Some (Some anError, P)
              | Some (None, P) \<Rightarrow>
                  (case ComputeWallDimensions K (ComputeFaceCenters K (AssignFaceColors K P)) of
                     None \<Rightarrow> None
                   | Some P \<Rightarrow>
                       (case ComputeVertexFigures K P of
                          None \<Rightarrow> None
                        | Some (Some anError, P) \<Rightarrow> Some (Some anError, P)
                        | Some (None, P) \<Rightarrow> Some (None, ComputeOutradius K P)))))"

definition seedDirichletDomain ::
  "Matrix list \<Rightarrow> Allocator \<Rightarrow> (ErrorText \<times> DirichletDomain option \<times> Allocator) option" where
  \<comment> \<open>ConstructDirichletDomain() from the choice of the group elements to the banana cut
      by a fourth halfspace, or the lens.\<close>
  "seedDirichletDomain someMatrices anAllocator =
     (let theNumMatrices = length someMatrices;
          theHalfspaceA = MakeHalfspaceInequality (someMatrices ! 1);
          theHalfspaceB = MakeHalfspaceInequality (someMatrices ! 2);
          theThirdIndex =
            firstIndex
              (\<lambda>i. let theCrossProduct = VectorTernaryCrossProduct theHalfspaceA theHalfspaceB
                                             (MakeHalfspaceInequality (someMatrices ! i))
                    in \<bar>VectorDotProduct theCrossProduct theCrossProduct\<bar> > PLANARITY_EPSILON)
              3 theNumMatrices
      in if theThirdIndex < theNumMatrices
         then
           case MakeBanana (someMatrices ! 1) (someMatrices ! 2) (someMatrices ! theThirdIndex)
                  None anAllocator of
             (Some anError, aDirichletDomain, al) \<Rightarrow> Some (Some anError, aDirichletDomain, al)
           | (None, None, al) \<Rightarrow> None
           | (None, Some P, al) \<Rightarrow>
               (case itsVertexList P of
                  [] \<Rightarrow> None
                | (a, theFirstVertex) # _ \<Rightarrow>
                    let theFourthIndex =
                          firstIndex
                            (\<lambda>i. \<bar>VectorDotProduct (MakeHalfspaceInequality (someMatrices ! i))
                                    (itsRawPosition theFirstVertex)\<bar> > HYPERPLANARITY_EPSILON)
                            (theThirdIndex + 1) theNumMatrices
                    in if theFourthIndex < theNumMatrices
                       then
                         (case IntersectWithHalfspace P (someMatrices ! theFourthIndex) al of
                            None \<Rightarrow> None
                          | Some (anError, P, al) \<Rightarrow> Some (anError, Some P, al))
                       else Some (Some ''Chimney-like spaces not supported.'', Some P, al))
         else MakeLens (someMatrices ! 1) (someMatrices ! 2) None anAllocator)"

definition ConstructDirichletDomain ::
  "Kernel \<Rightarrow> Matrix list option \<Rightarrow> DirichletDomain option \<Rightarrow> Allocator
     \<Rightarrow> (ErrorText \<times> DirichletDomain option \<times> Allocator) option" where
  \<comment> \<open>aHolonomyGroup is NULL or the array of its matrices, itsNumMatrices being the
      length; aDirichletDomain is what the output location holds.  \<open>None\<close>: the call does
      not return.  Otherwise: the error text returned, what the output location holds then,
      and the allocator.  On an error FreeDirichletDomain() leaves NULL there.\<close>
  "ConstructDirichletDomain K aHolonomyGroup aDirichletDomain anAllocator =
     (case aHolonomyGroup of
        None \<Rightarrow>
          Some (Some ''ConstructDirichletDomain() received a NULL holonomy group.'',
                aDirichletDomain, anAllocator)
      | Some someMatrices \<Rightarrow>
          if aDirichletDomain \<noteq> None
          then Some (Some ''ConstructDirichletDomain() received a non-NULL output location.'',
                     aDirichletDomain, anAllocator)
          else if length someMatrices < 3
          then
            if length someMatrices > 0 then Some (None, None, anAllocator)
            else Some (Some ''ConstructDirichletDomain() received no matrices.'', None, anAllocator)
          else if \<not> MatrixIsIdentity (someMatrices ! 0)
          then Some (Some ''ConstructDirichletDomain() expects the first matrix to be the identity.'',
                     None, anAllocator)
          else
            case seedDirichletDomain someMatrices anAllocator of
              None \<Rightarrow> None
            | Some (Some anError, _, al) \<Rightarrow> Some (Some anError, None, al)
            | Some (None, None, al) \<Rightarrow> None
            | Some (None, Some P, al) \<Rightarrow>
                (case intersectWithAll someMatrices P al of
                   None \<Rightarrow> None
                 | Some (Some anError, _, al) \<Rightarrow> Some (Some anError, None, al)
                 | Some (None, P, al) \<Rightarrow>
                     (case finishDirichletDomain K someMatrices P of
                        None \<Rightarrow> None
                      | Some (Some anError, _) \<Rightarrow> Some (Some anError, None, al)
                      | Some (None, P) \<Rightarrow> Some (None, Some P, al))))"


text \<open>
  The loops of IntersectWithHalfspace unfold by their defining equations when a cut is
  evaluated.
\<close>

declare scanCycle.simps [code] setOuterFace.simps [code] seeSurvivingHalfEdge.simps [code]
  skipDeletedHalfEdges.simps [code]

subsection \<open>Double precision as IEEE 754 has it\<close>

text \<open>
  One arithmetic for \<open>MultiplyAccumulate\<close>: IEEE 754 binary64 with rounding to nearest,
  ties to even, the product rounded and then the sum.  It is what the machines this
  program runs on compute when the compiler does not fuse the two operations.
\<close>

function binaryExponent :: "real \<Rightarrow> int" where
  \<comment> \<open>For a positive x the exponent e with 2^e \<le> x < 2^(e+1).\<close>
  "binaryExponent x =
     (if 2 \<le> x then binaryExponent (x / 2) + 1
      else if 0 < x \<and> x < 1 then binaryExponent (2 * x) - 1
      else 0)"
  by pat_completeness auto
termination
proof (relation "measure (\<lambda>x. if 2 \<le> x then nat \<lceil>x\<rceil>
                               else if 0 < x \<and> x < 1 then nat \<lceil>1 / x\<rceil> else 0)")
  show "wf (measure (\<lambda>x. if 2 \<le> x then nat \<lceil>x\<rceil>
                          else if 0 < x \<and> x < 1 then nat \<lceil>1 / x\<rceil> else 0))"
    by simp
next
  fix x :: real
  assume "2 \<le> x"
  then have "\<lceil>x / 2\<rceil> < \<lceil>x\<rceil>"
    by linarith
  with \<open>2 \<le> x\<close>
  show "(x / 2, x) \<in> measure (\<lambda>x. if 2 \<le> x then nat \<lceil>x\<rceil>
                                   else if 0 < x \<and> x < 1 then nat \<lceil>1 / x\<rceil> else 0)"
    by auto
next
  fix x :: real
  assume small: "\<not> 2 \<le> x" "0 < x \<and> x < 1"
  then have inverse: "0 < 1 / x" "1 < 1 / x"
    by auto
  then have positive: "0 < \<lceil>1 / x\<rceil>"
    by linarith
  show "(2 * x, x) \<in> measure (\<lambda>x. if 2 \<le> x then nat \<lceil>x\<rceil>
                                   else if 0 < x \<and> x < 1 then nat \<lceil>1 / x\<rceil> else 0)"
  proof (cases "2 * x < 1")
    case True
    then have "2 < 1 / x"
      using small by (simp add: field_simps)
    then have "1 / (2 * x) \<le> 1 / x - 1"
      using small by (simp add: field_simps)
    then have "\<lceil>1 / (2 * x)\<rceil> < \<lceil>1 / x\<rceil>"
      by linarith
    with positive show ?thesis
      using small True by auto
  next
    case False
    with positive show ?thesis
      using small by auto
  qed
qed

definition roundToDouble :: "real \<Rightarrow> Double" where
  \<comment> \<open>The double nearest to x, the one with the even significand when two are as near:
      a multiple of 2^(e - 52), where e is the exponent of x and at least -1022 (below
      that the doubles are the multiples of 2^(-1074)); an infinity when the rounded
      value does not fit below 2^1024.\<close>
  "roundToDouble x =
     (if x = 0 then FiniteDouble 0
      else
        let e = max (binaryExponent \<bar>x\<bar>) (- 1022);
            theUnit = (if 52 \<le> e then 2 ^ nat (e - 52) else 1 / 2 ^ nat (52 - e));
            n = x / theUnit;
            f = \<lfloor>n\<rfloor>;
            r = (if n - of_int f < 1 / 2 then f
                 else if n - of_int f > 1 / 2 then f + 1
                 else if even f then f else f + 1);
            y = of_int r * theUnit
        in if 2 ^ 1024 \<le> y then PositiveInfinity
           else if y \<le> - (2 ^ 1024) then NegativeInfinity
           else FiniteDouble y)"

definition DoubleSum :: "Double \<Rightarrow> Double \<Rightarrow> Double" where
  \<comment> \<open>The sum of two doubles.\<close>
  "DoubleSum a b =
     (case (a, b) of
        (FiniteDouble x, FiniteDouble y) \<Rightarrow> roundToDouble (x + y)
      | (NotANumber, _) \<Rightarrow> NotANumber
      | (_, NotANumber) \<Rightarrow> NotANumber
      | (PositiveInfinity, NegativeInfinity) \<Rightarrow> NotANumber
      | (NegativeInfinity, PositiveInfinity) \<Rightarrow> NotANumber
      | (PositiveInfinity, _) \<Rightarrow> PositiveInfinity
      | (NegativeInfinity, _) \<Rightarrow> NegativeInfinity
      | (_, PositiveInfinity) \<Rightarrow> PositiveInfinity
      | (_, NegativeInfinity) \<Rightarrow> NegativeInfinity)"

subsection \<open>Values for evaluating the model\<close>

definition transposeKernel :: Kernel where
  \<comment> \<open>One kernel, for evaluating the model at concrete inputs: sums are not rounded
      (as the machine leaves them when the entries are small multiples of a power of
      two), the inverse of an element of O(4) is its transpose, a vector is normalized
      by no rescaling at all, and distances are measured along the last coordinate.
      No theorem below depends on this choice but through an instance it names.\<close>
  "transposeKernel =
     \<lparr>MultiplyAccumulate =
        (\<lambda>aSum a b. case aSum of FiniteDouble x \<Rightarrow> FiniteDouble (x + a * b) | _ \<Rightarrow> aSum),
      MatrixGeometricInverse = (\<lambda>aMatrix. aMatrix\<lparr>m := transpose (m aMatrix)\<rparr>),
      VectorNormalize = (\<lambda>aVector aSpaceType. (None, aVector)),
      VectorGeometricDistance = (\<lambda>aVector. \<bar>1 - aVector ! 3\<bar>),
      VectorGeometricDistance2 = (\<lambda>aVectorA aVectorB. \<bar>aVectorA ! 3 - aVectorB ! 3\<bar>),
      HSLAtoRGBA = (\<lambda>c. \<lparr>rgbaR = hslaL c, rgbaG = hslaL c, rgbaB = hslaL c, rgbaA = hslaA c\<rparr>)\<rparr>"

definition movingModelData :: ModelData where
  \<comment> \<open>The model data once a flat space is loaded and the observer moves forward.\<close>
  "movingModelData = SetUpModelData\<lparr>itsModelSpaceType := SpaceFlat, itsUserSpeed := 1 / 10\<rparr>"

definition rotationZW :: "real \<Rightarrow> real \<Rightarrow> ImageParity \<Rightarrow> Matrix" where
  "rotationZW c s aParity =
     \<lparr>m = [[1, 0, 0, 0], [0, (case aParity of ImagePositive \<Rightarrow> 1 | ImageNegative \<Rightarrow> - 1), 0, 0],
           [0, 0, c, - s], [0, 0, s, c]], itsParity = aParity\<rparr>"

definition honeycell :: "Matrix \<Rightarrow> Honeycell" where
  "honeycell aMatrix =
     \<lparr>itsCellMatrix = aMatrix,
      itsCellCenterInWorldSpace = VectorTimesMatrix [0, 0, 0, 1] aMatrix,
      itsDistanceCameraToCellCenter = 0\<rparr>"

definition exampleHoneycomb :: Honeycomb where
  "exampleHoneycomb =
     \<lparr>itsCells = [honeycell MatrixIdentity, honeycell (rotationZW (- 1) 0 ImagePositive),
                  honeycell (rotationZW 0 1 ImageNegative), honeycell (rotationZW (4 / 5) (3 / 5) ImagePositive)],
      itsNumVisibleCells = 0, itsNumVisiblePlainCells = 0, itsNumVisibleReflectedCells = 0,
      itsVisibleCells = [None, None, None, None]\<rparr>"

definition translation :: "real \<Rightarrow> real \<Rightarrow> real \<Rightarrow> Matrix" where
  \<comment> \<open>The translation of flat space by (dx, dy, dz).\<close>
  "translation dx dy dz =
     \<lparr>m = [[1, 0, 0, 0], [0, 1, 0, 0], [0, 0, 1, 0], [dx, dy, dz, 1]], itsParity = ImagePositive\<rparr>"

definition hyperbolicTranslation :: "real \<Rightarrow> real \<Rightarrow> Matrix" where
  \<comment> \<open>The translation of hyperbolic space along the z axis whose hyperbolic cosine and
      sine are c and s.\<close>
  "hyperbolicTranslation c s =
     \<lparr>m = [[1, 0, 0, 0], [0, 1, 0, 0], [0, 0, c, s], [0, 0, s, c]], itsParity = ImagePositive\<rparr>"

definition hyperbolicSlab :: "Matrix list" where
  \<comment> \<open>The identity, a hyperbolic translation and its inverse.\<close>
  "hyperbolicSlab =
     [MatrixIdentity, hyperbolicTranslation (5 / 4) (3 / 4), hyperbolicTranslation (5 / 4) (- 3 / 4)]"

definition plentyOfMemory :: Allocator where
  "plentyOfMemory = \<lparr>itsNextAddress = 1, itsGrants = 1000\<rparr>"

definition exampleBanana :: DirichletDomain where
  \<comment> \<open>The banana of the translations by one unit along x, against x, and along y.\<close>
  "exampleBanana =
     the (fst (snd (MakeBanana (translation 1 0 0) (translation (- 1) 0 0) (translation 0 1 0)
                      None plentyOfMemory)))"

definition antipodalMap :: Matrix where
  \<comment> \<open>The antipodal map of the 3-sphere; with the identity it gives projective 3-space.\<close>
  "antipodalMap =
     \<lparr>m = [[- 1, 0, 0, 0], [0, - 1, 0, 0], [0, 0, - 1, 0], [0, 0, 0, - 1]], itsParity = ImagePositive\<rparr>"

definition flatInverse :: "Matrix \<Rightarrow> Matrix" where
  \<comment> \<open>Modelled from the spec: MatrixGeometricInverse() of CurvedSpacesMatrices.c on an
      isometry of flat space, the "geometric inverse": the rotation R and the translation
      t (the last row) of the matrix become the transpose of R and -t times it.\<close>
  "flatInverse aMatrix =
     (let a = m aMatrix
      in aMatrix
           \<lparr>m := [[a ! 0 ! 0, a ! 1 ! 0, a ! 2 ! 0, 0],
                  [a ! 0 ! 1, a ! 1 ! 1, a ! 2 ! 1, 0],
                  [a ! 0 ! 2, a ! 1 ! 2, a ! 2 ! 2, 0],
                  [- (a ! 3 ! 0 * a ! 0 ! 0 + a ! 3 ! 1 * a ! 0 ! 1 + a ! 3 ! 2 * a ! 0 ! 2),
                   - (a ! 3 ! 0 * a ! 1 ! 0 + a ! 3 ! 1 * a ! 1 ! 1 + a ! 3 ! 2 * a ! 1 ! 2),
                   - (a ! 3 ! 0 * a ! 2 ! 0 + a ! 3 ! 1 * a ! 2 ! 1 + a ! 3 ! 2 * a ! 2 ! 2),
                   1]]\<rparr>)"

definition roundingKernel :: Kernel where
  \<comment> \<open>The kernel above for a flat space, with the sums of IEEE 754: \<^verbatim>\<open>aSum += a * b\<close>
      rounds the product, then the sum.\<close>
  "roundingKernel =
     transposeKernel
       \<lparr>MultiplyAccumulate := (\<lambda>aSum a b. DoubleSum aSum (roundToDouble (a * b))),
        MatrixGeometricInverse := flatInverse\<rparr>"

definition skewBanana :: DirichletDomain where
  \<comment> \<open>The banana of the translations by one unit along x, against x, and by
      (3/4, 3/4, 1/2).\<close>
  "skewBanana =
     the (fst (snd (MakeBanana (translation 1 0 0) (translation (- 1) 0 0)
                      (translation (3 / 4) (3 / 4) (1 / 2)) None plentyOfMemory)))"

definition nearlyReducedPlacement :: Matrix where
  \<comment> \<open>A placement whose last row holds four doubles, (0.5, 0.4375,
      -0.031249980000000004, 1).\<close>
  "nearlyReducedPlacement = translation (1 / 2) (7 / 16) (- 4503596745066735 / 2 ^ 57)"


section \<open>Properties\<close>

subsection \<open>The observer's motion\<close>

text \<open>
  C8.  GestureTap toggles the observer between moving and paused, remembering the speed:
  from a state with a speed other than 0, a tap sets the speed to 0 and the pre-pause
  speed to the old speed; from a state with speed 0, a tap sets the speed to the pre-pause
  speed and the pre-pause speed to 0; so two taps from a moving state restore the speed.
  The geometry plays no part: changing the space type commutes with the tap.
\<close>

theorem GestureTap_toggles:
  "(itsUserSpeed md \<noteq> 0 \<longrightarrow>
      itsUserSpeed (GestureTap md) = 0
      \<and> itsPrePauseUserSpeed (GestureTap md) = itsUserSpeed md
      \<and> itsUserSpeed (GestureTap (GestureTap md)) = itsUserSpeed md)
   \<and> (itsUserSpeed md = 0 \<longrightarrow>
      itsUserSpeed (GestureTap md) = itsPrePauseUserSpeed md
      \<and> itsPrePauseUserSpeed (GestureTap md) = 0)
   \<and> GestureTap (md\<lparr>itsModelSpaceType := aSpaceType\<rparr>)
       = (GestureTap md)\<lparr>itsModelSpaceType := aSpaceType\<rparr>"
  by (simp add: GestureTap_def)

theorem GestureTap_toggles_witness:
  "itsUserSpeed movingModelData \<noteq> 0
   \<and> itsUserSpeed (GestureTap movingModelData) = 0
   \<and> itsPrePauseUserSpeed (GestureTap movingModelData) = 1 / 10
   \<and> itsUserSpeed (GestureTap (GestureTap movingModelData)) = 1 / 10
   \<and> itsUserSpeed (GestureTap movingModelData) = 0
   \<and> itsUserSpeed (GestureTap (GestureTap movingModelData))
       = itsPrePauseUserSpeed (GestureTap movingModelData)
   \<and> itsPrePauseUserSpeed (GestureTap (GestureTap movingModelData)) = 0"
proof -
  have moving: "itsUserSpeed movingModelData = 1 / 10"
    by (simp add: movingModelData_def SetUpModelData_def)
  have paused: "itsUserSpeed (GestureTap movingModelData) = 0"
    using GestureTap_toggles [of movingModelData] moving by simp
  show ?thesis
    using GestureTap_toggles [of movingModelData] GestureTap_toggles [of "GestureTap movingModelData"]
      moving paused
    by simp
qed

text \<open>
  C7, as the code has it.  GestureRotate, GesturePinch, SimulationUpdate and the six
  setters of CurvedSpacesOptions.c each add one to itsChangeCount, modulo \<open>2^64\<close>
  ("wraparound, while unlikely, would be harmless"): the counter is strictly greater after
  the call unless it stood at \<open>2^64 - 1\<close>.  GestureTap changes the speeds and leaves
  the counter alone ("the caller will refresh the speed slider").
\<close>

theorem change_count_incremented:
  "itsChangeCount (GestureRotate md anAngle) = itsChangeCount md + 1
   \<and> itsChangeCount (GesturePinch md anExpansionFactor) = itsChangeCount md + 1
   \<and> itsChangeCount (SimulationUpdate K md aFramePeriod) = itsChangeCount md + 1
   \<and> itsChangeCount (SetCenterpiece md aCenterpieceChoice) = itsChangeCount md + 1
   \<and> itsChangeCount (SetShowObserver md aFlag) = itsChangeCount md + 1
   \<and> itsChangeCount (SetShowColorCoding md aFlag) = itsChangeCount md + 1
   \<and> itsChangeCount (SetShowCliffordParallels md aCliffordMode) = itsChangeCount md + 1
   \<and> itsChangeCount (SetShowVertexFigures md aFlag) = itsChangeCount md + 1
   \<and> itsChangeCount (SetFogFlag md aFlag) = itsChangeCount md + 1
   \<and> itsChangeCount (GestureTap md) = itsChangeCount md
   \<and> (itsChangeCount md \<noteq> - 1 \<longrightarrow>
        itsChangeCount md < itsChangeCount (GestureRotate md anAngle)
        \<and> itsChangeCount md < itsChangeCount (GesturePinch md anExpansionFactor)
        \<and> itsChangeCount md < itsChangeCount (SimulationUpdate K md aFramePeriod)
        \<and> itsChangeCount md < itsChangeCount (SetCenterpiece md aCenterpieceChoice)
        \<and> itsChangeCount md < itsChangeCount (SetShowObserver md aFlag)
        \<and> itsChangeCount md < itsChangeCount (SetShowColorCoding md aFlag)
        \<and> itsChangeCount md < itsChangeCount (SetShowCliffordParallels md aCliffordMode)
        \<and> itsChangeCount md < itsChangeCount (SetShowVertexFigures md aFlag)
        \<and> itsChangeCount md < itsChangeCount (SetFogFlag md aFlag))"
proof -
  have rotate: "itsChangeCount (GestureRotate md anAngle) = itsChangeCount md + 1"
    by (simp add: GestureRotate_def Let_def)
  have pinch: "itsChangeCount (GesturePinch md anExpansionFactor) = itsChangeCount md + 1"
    by (simp add: GesturePinch_def Let_def)
  have update: "itsChangeCount (SimulationUpdate K md aFramePeriod) = itsChangeCount md + 1"
    by (simp add: SimulationUpdate_def UpdateUserPlacement_def UpdateCenterpieceRotation_def Let_def)
  have setters:
    "itsChangeCount (SetCenterpiece md aCenterpieceChoice) = itsChangeCount md + 1"
    "itsChangeCount (SetShowObserver md aFlag) = itsChangeCount md + 1"
    "itsChangeCount (SetShowColorCoding md aFlag) = itsChangeCount md + 1"
    "itsChangeCount (SetShowCliffordParallels md aCliffordMode) = itsChangeCount md + 1"
    "itsChangeCount (SetShowVertexFigures md aFlag) = itsChangeCount md + 1"
    "itsChangeCount (SetFogFlag md aFlag) = itsChangeCount md + 1"
    by (simp_all add: SetCenterpiece_def SetShowObserver_def SetShowColorCoding_def
        SetShowCliffordParallels_def SetShowVertexFigures_def SetFogFlag_def)
  have tap: "itsChangeCount (GestureTap md) = itsChangeCount md"
    by (simp add: GestureTap_def)
  have strict: "itsChangeCount md \<noteq> - 1 \<longrightarrow> itsChangeCount md < itsChangeCount md + 1"
    by (meson inc_less_eq_triv_imp verit_comp_simplify1(3))
  from rotate pinch update setters tap strict show ?thesis by simp
qed

theorem change_count_incremented_witness:
  "itsChangeCount movingModelData \<noteq> - 1
   \<and> itsChangeCount (SimulationUpdate transposeKernel movingModelData (1 / 60)) = 1
   \<and> itsChangeCount movingModelData < itsChangeCount (SimulationUpdate transposeKernel movingModelData (1 / 60))"
proof -
  have zero: "itsChangeCount movingModelData = 0"
    by (simp add: movingModelData_def SetUpModelData_def)
  show ?thesis
    using change_count_incremented [of movingModelData _ _ transposeKernel "1 / 60"] zero
    by simp
qed

theorem GestureTap_keeps_change_count_counterexample:
  "GestureTap movingModelData \<noteq> movingModelData
   \<and> \<not> itsChangeCount movingModelData < itsChangeCount (GestureTap movingModelData)"
proof -
  have "itsUserSpeed (GestureTap movingModelData) \<noteq> itsUserSpeed movingModelData"
    by (simp add: GestureTap_def movingModelData_def SetUpModelData_def)
  then have "GestureTap movingModelData \<noteq> movingModelData"
    by auto
  moreover have "itsChangeCount (GestureTap movingModelData) = itsChangeCount movingModelData"
    by (simp add: GestureTap_def)
  ultimately show ?thesis by simp
qed

text \<open>
  C9.  SimulationUpdate clamps the frame period to 0.1 (MAX_FRAME_PERIOD): with any longer
  period the resulting state is the one the period 0.1 gives.
\<close>

theorem SimulationUpdate_clamps_frame_period:
  "aFramePeriod > 1 / 10 \<Longrightarrow>
     SimulationUpdate K md aFramePeriod = SimulationUpdate K md (1 / 10)"
  by (simp add: SimulationUpdate_def MAX_FRAME_PERIOD_def)

theorem SimulationUpdate_clamps_frame_period_witness:
  "(3 :: real) > 1 / 10
   \<and> SimulationUpdate transposeKernel movingModelData 3
       = SimulationUpdate transposeKernel movingModelData (1 / 10)"
proof -
  have late: "(3 :: real) > 1 / 10" by simp
  from SimulationUpdate_clamps_frame_period [OF late] late show ?thesis by simp
qed

subsection \<open>The culled honeycomb\<close>

lemma cullCell_counts:
  assumes "itsNumVisiblePlainCells hc + itsNumVisibleReflectedCells hc = itsNumVisibleCells hc"
  shows "itsNumVisiblePlainCells (cullCell K V st tr adj planes hc i)
           + itsNumVisibleReflectedCells (cullCell K V st tr adj planes hc i)
         = itsNumVisibleCells (cullCell K V st tr adj planes hc i)"
  using assms by (simp add: cullCell_def Let_def)

lemma foldl_cullCell_counts:
  assumes "itsNumVisiblePlainCells hc + itsNumVisibleReflectedCells hc = itsNumVisibleCells hc"
  shows "itsNumVisiblePlainCells (foldl (cullCell K V st tr adj planes) hc is)
           + itsNumVisibleReflectedCells (foldl (cullCell K V st tr adj planes) hc is)
         = itsNumVisibleCells (foldl (cullCell K V st tr adj planes) hc is)"
  using assms
proof (induction "is" arbitrary: hc)
  case Nil
  then show ?case by simp
next
  case (Cons i "is")
  from Cons.prems have "itsNumVisiblePlainCells (cullCell K V st tr adj planes hc i)
           + itsNumVisibleReflectedCells (cullCell K V st tr adj planes hc i)
         = itsNumVisibleCells (cullCell K V st tr adj planes hc i)"
    by (rule cullCell_counts)
  from Cons.IH [OF this] show ?case by simp
qed

lemma upt4: "[0..<4] = [0, 1, 2, 3]"
  by (simp add: upt_rec)

lemma exampleHoneycomb_culled:
  "\<exists>hc'. CullAndSortVisibleCells transposeKernel (Some exampleHoneycomb) MatrixIdentity 4 3 10 1
             SpaceSpherical = Inr (Some hc')
     \<and> itsVisibleCells hc' = [Some 0, Some 3, Some 2, Some 1]
     \<and> itsNumVisibleCells hc' = 4
     \<and> itsNumVisiblePlainCells hc' = 3
     \<and> itsNumVisibleReflectedCells hc' = 1"
  by (simp add: CullAndSortVisibleCells_def adjustedDirichletDomainRadius_def
      MakeCullingHyperplanes_def CharacteristicViewSize_def Let_def exampleHoneycomb_def upt4
      cullCell_def cellIsVisible_def honeycell_def VectorTimesMatrix_def MatrixIdentity_def
      rotationZW_def transposeKernel_def sortVisibleCells_def qsort_def cellAt_def
      CompareCellCenterDistances_def)

text \<open>
  C5.  After a call of CullAndSortVisibleCells on a honeycomb that is not NULL, the count of
  visible plain cells plus the count of visible reflected cells is the count of visible
  cells: every accepted cell adds one to the total and one to exactly one of the two, by
  comparing the parity of its matrix with that of the view matrix.
\<close>

theorem visible_cells_partitioned:
  assumes "CullAndSortVisibleCells K (Some hc) aViewMatrix anImageWidth anImageHeight
             aHorizonRadius aDirichletDomainRadius aSpaceType = Inr (Some hc')"
  shows "itsNumVisiblePlainCells hc' + itsNumVisibleReflectedCells hc' = itsNumVisibleCells hc'"
proof -
  let ?hc0 = "hc\<lparr>itsNumVisibleCells := 0, itsNumVisiblePlainCells := 0,
                    itsNumVisibleReflectedCells := 0\<rparr>"
  from assms obtain adj planes where
    hc': "hc' = sortVisibleCells
            (foldl (cullCell K aViewMatrix aSpaceType (aHorizonRadius + aDirichletDomainRadius)
                      adj planes) ?hc0 [0..<length (itsCells ?hc0)])"
    by (auto simp: CullAndSortVisibleCells_def Let_def split: sum.splits)
  have "itsNumVisiblePlainCells ?hc0 + itsNumVisibleReflectedCells ?hc0 = itsNumVisibleCells ?hc0"
    by simp
  from foldl_cullCell_counts [OF this] show ?thesis
    unfolding hc' by (simp add: sortVisibleCells_def Let_def)
qed

theorem visible_cells_partitioned_witness:
  "\<exists>hc'. CullAndSortVisibleCells transposeKernel (Some exampleHoneycomb) MatrixIdentity 4 3 10 1
             SpaceSpherical = Inr (Some hc')
     \<and> itsNumVisiblePlainCells hc' = 3
     \<and> itsNumVisibleReflectedCells hc' = 1
     \<and> itsNumVisiblePlainCells hc' + itsNumVisibleReflectedCells hc' = itsNumVisibleCells hc'"
proof -
  from exampleHoneycomb_culled obtain hc' where
    run: "CullAndSortVisibleCells transposeKernel (Some exampleHoneycomb) MatrixIdentity 4 3 10 1
            SpaceSpherical = Inr (Some hc')"
    and counts: "itsNumVisiblePlainCells hc' = 3" "itsNumVisibleReflectedCells hc' = 1"
    by blast
  from visible_cells_partitioned [OF run] run counts show ?thesis by blast
qed

lemma mset_qsortInsert: "mset (qsortInsert compar x ys) = add_mset x (mset ys)"
  by (induction ys) auto

lemma mset_qsort: "mset (qsort compar xs) = mset xs"
  by (induction xs) (auto simp: qsort_def mset_qsortInsert)

lemma length_qsort: "length (qsort compar xs) = length xs"
  using mset_qsort [of compar xs] by (metis size_mset)

lemma set_qsortInsert: "set (qsortInsert compar x ys) = insert x (set ys)"
  using mset_qsortInsert [of compar x ys] by (metis set_mset_add_mset_insert set_mset_mset)

lemma sorted_qsortInsert:
  fixes key :: "'a \<Rightarrow> real"
  assumes "\<And>x y. compar x y \<le> 0 \<longleftrightarrow> key x \<le> key y"
  shows "sorted (map key ys) \<Longrightarrow> sorted (map key (qsortInsert compar x ys))"
proof (induction ys)
  case Nil
  then show ?case by simp
next
  case (Cons y ys)
  show ?case
  proof (cases "compar x y \<le> 0")
    case True
    with assms have "key x \<le> key y" by simp
    with Cons.prems True show ?thesis by auto
  next
    case False
    with assms have "key y \<le> key x" by (metis linear)
    with Cons False show ?thesis by (auto simp: set_qsortInsert)
  qed
qed

lemma sorted_qsort:
  fixes key :: "'a \<Rightarrow> real"
  assumes "\<And>x y. compar x y \<le> 0 \<longleftrightarrow> key x \<le> key y"
  shows "sorted (map key (qsort compar xs))"
proof (induction xs)
  case Nil
  then show ?case by (simp add: qsort_def)
next
  case (Cons x xs)
  have "qsort compar (x # xs) = qsortInsert compar x (qsort compar xs)"
    by (simp add: qsort_def)
  with sorted_qsortInsert [OF assms Cons] show ?case by simp
qed

lemma CompareCellCenterDistances_le:
  "CompareCellCenterDistances aCell1 aCell2 \<le> 0
     \<longleftrightarrow> itsDistanceCameraToCellCenter aCell1 \<le> itsDistanceCameraToCellCenter aCell2"
  by (simp add: CompareCellCenterDistances_def Let_def)

lemma take_sortVisibleCells:
  "take (unat (itsNumVisibleCells (sortVisibleCells hc))) (itsVisibleCells (sortVisibleCells hc))
   = qsort (\<lambda>p1 p2. CompareCellCenterDistances (cellAt (itsCells hc) p1) (cellAt (itsCells hc) p2))
       (take (unat (itsNumVisibleCells hc)) (itsVisibleCells hc))"
  by (simp add: sortVisibleCells_def Let_def length_qsort min_def)

lemma sorted_sortVisibleCells:
  "sorted (map (\<lambda>p. itsDistanceCameraToCellCenter (cellAt (itsCells (sortVisibleCells hc)) p))
     (take (unat (itsNumVisibleCells (sortVisibleCells hc))) (itsVisibleCells (sortVisibleCells hc))))"
proof -
  have cells: "itsCells (sortVisibleCells hc) = itsCells hc"
    by (simp add: sortVisibleCells_def Let_def)
  show ?thesis
    unfolding take_sortVisibleCells cells
    by (rule sorted_qsort) (simp add: CompareCellCenterDistances_le)
qed

lemma cullCell_step:
  fixes K V st tr adj planes hc0
  defines "A \<equiv> acceptedCells K hc0 V st tr adj planes"
  assumes cap: "length (itsCells hc0) \<le> length (itsVisibleCells hc0)"
    and small: "length (itsCells hc0) < 2 ^ 32"
    and k: "k < length (itsCells hc0)"
    and len: "length (itsCells hc) = length (itsCells hc0)"
    and vlen: "length (itsVisibleCells hc) = length (itsVisibleCells hc0)"
    and centers: "\<forall>i < length (itsCells hc0).
        itsCellCenterInWorldSpace (itsCells hc ! i) = itsCellCenterInWorldSpace (itsCells hc0 ! i)"
    and dists: "\<forall>i < k. itsDistanceCameraToCellCenter (itsCells hc ! i)
        = VectorGeometricDistance K (cellCenterInCameraSpace hc0 V i)"
    and prefix: "take (length (A k)) (itsVisibleCells hc) = map Some (A k)"
    and count: "itsNumVisibleCells hc = of_nat (length (A k))"
  shows "length (itsCells (cullCell K V st tr adj planes hc k)) = length (itsCells hc0)
    \<and> length (itsVisibleCells (cullCell K V st tr adj planes hc k)) = length (itsVisibleCells hc0)
    \<and> (\<forall>i < length (itsCells hc0).
        itsCellCenterInWorldSpace (itsCells (cullCell K V st tr adj planes hc k) ! i)
        = itsCellCenterInWorldSpace (itsCells hc0 ! i))
    \<and> (\<forall>i < Suc k. itsDistanceCameraToCellCenter (itsCells (cullCell K V st tr adj planes hc k) ! i)
        = VectorGeometricDistance K (cellCenterInCameraSpace hc0 V i))
    \<and> take (length (A (Suc k))) (itsVisibleCells (cullCell K V st tr adj planes hc k))
        = map Some (A (Suc k))
    \<and> itsNumVisibleCells (cullCell K V st tr adj planes hc k) = of_nat (length (A (Suc k)))"
proof -
  let ?cc = "cellCenterInCameraSpace hc0 V k"
  let ?d = "VectorGeometricDistance K ?cc"
  let ?acc = "cellIsVisible st tr adj planes ?cc ?d"
  let ?hc' = "cullCell K V st tr adj planes hc k"
  have cc: "VectorTimesMatrix (itsCellCenterInWorldSpace (itsCells hc ! k)) V = ?cc"
    using centers k by (simp add: cellCenterInCameraSpace_def)
  have lenA: "length (A k) \<le> k"
    unfolding A_def acceptedCells_def by (metis diff_zero length_filter_le length_upt)
  have unat: "unat (of_nat (length (A k)) :: 32 word) = length (A k)"
    using lenA k small by (simp add: unat_of_nat)
  have inside: "length (A k) < length (itsVisibleCells hc)"
    using lenA k cap vlen by simp
  have ASuc: "A (Suc k) = (if ?acc then A k @ [k] else A k)"
    unfolding A_def acceptedCells_def by simp
  have cells': "itsCells ?hc' = (itsCells hc)[k := (itsCells hc ! k)\<lparr>itsDistanceCameraToCellCenter := ?d\<rparr>]"
    by (simp add: cullCell_def Let_def cc)
  have vis': "itsVisibleCells ?hc'
      = (if ?acc then (itsVisibleCells hc)[length (A k) := Some k] else itsVisibleCells hc)"
    by (simp add: cullCell_def Let_def cc count unat)
  have num': "itsNumVisibleCells ?hc'
      = (if ?acc then of_nat (length (A k)) + 1 else of_nat (length (A k)))"
    by (simp add: cullCell_def Let_def cc count)
  have 1: "length (itsCells ?hc') = length (itsCells hc0)"
    using len by (simp add: cells')
  have 2: "length (itsVisibleCells ?hc') = length (itsVisibleCells hc0)"
    using vlen by (simp add: vis')
  have 3: "\<forall>i < length (itsCells hc0).
        itsCellCenterInWorldSpace (itsCells ?hc' ! i) = itsCellCenterInWorldSpace (itsCells hc0 ! i)"
  proof (intro allI impI)
    fix i
    assume i: "i < length (itsCells hc0)"
    then have "i < length (itsCells hc)" using len by simp
    then have "itsCellCenterInWorldSpace (itsCells ?hc' ! i)
        = itsCellCenterInWorldSpace (itsCells hc ! i)"
      by (cases "i = k") (simp_all add: cells')
    with centers i show "itsCellCenterInWorldSpace (itsCells ?hc' ! i)
        = itsCellCenterInWorldSpace (itsCells hc0 ! i)"
      by simp
  qed
  have 4: "\<forall>i < Suc k. itsDistanceCameraToCellCenter (itsCells ?hc' ! i)
        = VectorGeometricDistance K (cellCenterInCameraSpace hc0 V i)"
  proof (intro allI impI)
    fix i
    assume i: "i < Suc k"
    have "k < length (itsCells hc)" using len k by simp
    then show "itsDistanceCameraToCellCenter (itsCells ?hc' ! i)
        = VectorGeometricDistance K (cellCenterInCameraSpace hc0 V i)"
      using dists i by (cases "i = k") (simp_all add: cells')
  qed
  have 5: "take (length (A (Suc k))) (itsVisibleCells ?hc') = map Some (A (Suc k))"
  proof (cases ?acc)
    case True
    have "take (Suc (length (A k))) ((itsVisibleCells hc)[length (A k) := Some k])
        = take (length (A k)) (itsVisibleCells hc) @ [Some k]"
      using inside by (simp add: take_Suc_conv_app_nth)
    with True prefix show ?thesis by (simp add: ASuc vis')
  next
    case False
    with prefix show ?thesis by (simp add: ASuc vis')
  qed
  have 6: "itsNumVisibleCells ?hc' = of_nat (length (A (Suc k)))"
    by (simp add: num' ASuc)
  from 1 2 3 4 5 6 show ?thesis by blast
qed

lemma acceptedCells_length_le:
  "length (acceptedCells K hc V st tr adj planes k) \<le> k"
  unfolding acceptedCells_def by (metis diff_zero length_filter_le length_upt)

lemma cull_loop:
  fixes K V st tr adj planes hc0
  defines "A \<equiv> acceptedCells K hc0 V st tr adj planes"
    and "loop \<equiv> (\<lambda>k. foldl (cullCell K V st tr adj planes) hc0 [0..<k])"
  assumes cap: "length (itsCells hc0) \<le> length (itsVisibleCells hc0)"
    and small: "length (itsCells hc0) < 2 ^ 32"
    and zero: "itsNumVisibleCells hc0 = 0"
  shows "k \<le> length (itsCells hc0) \<Longrightarrow>
    length (itsCells (loop k)) = length (itsCells hc0)
    \<and> length (itsVisibleCells (loop k)) = length (itsVisibleCells hc0)
    \<and> (\<forall>i < length (itsCells hc0).
        itsCellCenterInWorldSpace (itsCells (loop k) ! i)
        = itsCellCenterInWorldSpace (itsCells hc0 ! i))
    \<and> (\<forall>i < k. itsDistanceCameraToCellCenter (itsCells (loop k) ! i)
        = VectorGeometricDistance K (cellCenterInCameraSpace hc0 V i))
    \<and> take (length (A k)) (itsVisibleCells (loop k)) = map Some (A k)
    \<and> itsNumVisibleCells (loop k) = of_nat (length (A k))"
proof (induction k)
  case 0
  show ?case by (simp add: loop_def A_def acceptedCells_def zero)
next
  case (Suc k)
  then have k: "k < length (itsCells hc0)" and IH:
    "length (itsCells (loop k)) = length (itsCells hc0)"
    "length (itsVisibleCells (loop k)) = length (itsVisibleCells hc0)"
    "\<forall>i < length (itsCells hc0).
        itsCellCenterInWorldSpace (itsCells (loop k) ! i)
        = itsCellCenterInWorldSpace (itsCells hc0 ! i)"
    "\<forall>i < k. itsDistanceCameraToCellCenter (itsCells (loop k) ! i)
        = VectorGeometricDistance K (cellCenterInCameraSpace hc0 V i)"
    "take (length (A k)) (itsVisibleCells (loop k)) = map Some (A k)"
    "itsNumVisibleCells (loop k) = of_nat (length (A k))"
    by simp_all
  have next_round: "loop (Suc k) = cullCell K V st tr adj planes (loop k) k"
    by (simp add: loop_def)
  show ?case
    unfolding next_round A_def
    by (rule cullCell_step [OF cap small k IH(1) IH(2) IH(3) IH(4) IH(5) [unfolded A_def]
          IH(6) [unfolded A_def]])
qed

text \<open>
  C6.  After a call of CullAndSortVisibleCells on a honeycomb that is not NULL (whose array
  itsVisibleCells has room for every cell, as AllocateHoneycomb() provides, the number of
  cells fitting an unsigned int), the first itsNumVisibleCells entries of itsVisibleCells
  point to the accepted cells, each once, in nondecreasing order of
  itsDistanceCameraToCellCenter, which holds the distance from the camera computed in
  this call.
\<close>

theorem visible_cells_sorted:
  assumes run: "CullAndSortVisibleCells K (Some hc) aViewMatrix anImageWidth anImageHeight
             aHorizonRadius aDirichletDomainRadius aSpaceType = Inr (Some hc')"
    and adj: "adjustedDirichletDomainRadius aSpaceType aDirichletDomainRadius = Inr adj"
    and planes: "MakeCullingHyperplanes anImageWidth anImageHeight = Inr planes"
    and cap: "length (itsVisibleCells hc) = length (itsCells hc)"
    and small: "length (itsCells hc) < 2 ^ 32"
  shows "sorted (map (\<lambda>p. itsDistanceCameraToCellCenter (cellAt (itsCells hc') p))
            (take (unat (itsNumVisibleCells hc')) (itsVisibleCells hc')))
    \<and> mset (take (unat (itsNumVisibleCells hc')) (itsVisibleCells hc'))
        = mset (map Some (acceptedCells K hc aViewMatrix aSpaceType
            (aHorizonRadius + aDirichletDomainRadius) adj planes (length (itsCells hc))))
    \<and> (\<forall>i < length (itsCells hc). itsDistanceCameraToCellCenter (itsCells hc' ! i)
        = VectorGeometricDistance K (cellCenterInCameraSpace hc aViewMatrix i))"
proof -
  let ?hc0 = "hc\<lparr>itsNumVisibleCells := 0, itsNumVisiblePlainCells := 0,
                    itsNumVisibleReflectedCells := 0\<rparr>"
  let ?tr = "aHorizonRadius + aDirichletDomainRadius"
  let ?n = "length (itsCells hc)"
  let ?culled = "foldl (cullCell K aViewMatrix aSpaceType ?tr adj planes) ?hc0 [0..<?n]"
  let ?A = "acceptedCells K hc aViewMatrix aSpaceType ?tr adj planes ?n"
  from run adj planes have hc': "hc' = sortVisibleCells ?culled"
    by (simp add: CullAndSortVisibleCells_def Let_def)
  have same_cc: "cellCenterInCameraSpace ?hc0 aViewMatrix = cellCenterInCameraSpace hc aViewMatrix"
    by (simp add: cellCenterInCameraSpace_def fun_eq_iff)
  have same_A: "acceptedCells K ?hc0 aViewMatrix aSpaceType ?tr adj planes ?n = ?A"
    by (simp add: acceptedCells_def same_cc)
  have loop: "length (itsCells ?culled) = ?n"
    "\<forall>i < ?n. itsDistanceCameraToCellCenter (itsCells ?culled ! i)
        = VectorGeometricDistance K (cellCenterInCameraSpace hc aViewMatrix i)"
    "take (length ?A) (itsVisibleCells ?culled) = map Some ?A"
    "itsNumVisibleCells ?culled = of_nat (length ?A)"
    using cull_loop [of ?hc0 ?n K aViewMatrix aSpaceType ?tr adj planes] cap small
    by (simp_all add: same_cc same_A)
  have "length ?A \<le> ?n" by (rule acceptedCells_length_le)
  with small have count: "unat (itsNumVisibleCells ?culled) = length ?A"
    by (simp add: loop(4) unat_of_nat)
  have sorted: "sorted (map (\<lambda>p. itsDistanceCameraToCellCenter (cellAt (itsCells hc') p))
            (take (unat (itsNumVisibleCells hc')) (itsVisibleCells hc')))"
    unfolding hc' by (rule sorted_sortVisibleCells)
  have "take (unat (itsNumVisibleCells hc')) (itsVisibleCells hc')
      = qsort (\<lambda>p1 p2. CompareCellCenterDistances (cellAt (itsCells ?culled) p1)
                 (cellAt (itsCells ?culled) p2)) (map Some ?A)"
    unfolding hc' take_sortVisibleCells by (simp add: count loop(3))
  then have holds: "mset (take (unat (itsNumVisibleCells hc')) (itsVisibleCells hc'))
      = mset (map Some ?A)"
    by (simp add: mset_qsort)
  have "itsCells hc' = itsCells ?culled"
    by (simp add: hc' sortVisibleCells_def Let_def)
  with loop(2) have dists: "\<forall>i < ?n. itsDistanceCameraToCellCenter (itsCells hc' ! i)
        = VectorGeometricDistance K (cellCenterInCameraSpace hc aViewMatrix i)"
    by simp
  from sorted holds dists show ?thesis by blast
qed

theorem visible_cells_sorted_witness:
  "\<exists>hc' adj planes.
     CullAndSortVisibleCells transposeKernel (Some exampleHoneycomb) MatrixIdentity 4 3 10 1
       SpaceSpherical = Inr (Some hc')
     \<and> adjustedDirichletDomainRadius SpaceSpherical 1 = Inr adj
     \<and> MakeCullingHyperplanes 4 3 = Inr planes
     \<and> length (itsVisibleCells exampleHoneycomb) = length (itsCells exampleHoneycomb)
     \<and> length (itsCells exampleHoneycomb) < 2 ^ 32
     \<and> take (unat (itsNumVisibleCells hc')) (itsVisibleCells hc') = [Some 0, Some 3, Some 2, Some 1]
     \<and> sorted (map (\<lambda>p. itsDistanceCameraToCellCenter (cellAt (itsCells hc') p))
          (take (unat (itsNumVisibleCells hc')) (itsVisibleCells hc')))
     \<and> mset (take (unat (itsNumVisibleCells hc')) (itsVisibleCells hc'))
        = mset (map Some (acceptedCells transposeKernel exampleHoneycomb MatrixIdentity SpaceSpherical
            (10 + 1) adj planes (length (itsCells exampleHoneycomb))))"
proof -
  from exampleHoneycomb_culled obtain hc' where
    run: "CullAndSortVisibleCells transposeKernel (Some exampleHoneycomb) MatrixIdentity 4 3 10 1
            SpaceSpherical = Inr (Some hc')"
    and visible: "itsVisibleCells hc' = [Some 0, Some 3, Some 2, Some 1]"
      "itsNumVisibleCells hc' = 4"
    by blast
  obtain adj where adj: "adjustedDirichletDomainRadius SpaceSpherical 1 = Inr adj"
    by (simp add: adjustedDirichletDomainRadius_def)
  obtain planes where planes: "MakeCullingHyperplanes 4 3 = Inr planes"
    by (simp add: MakeCullingHyperplanes_def CharacteristicViewSize_def Let_def)
  have cap: "length (itsVisibleCells exampleHoneycomb) = length (itsCells exampleHoneycomb)"
    by (simp add: exampleHoneycomb_def)
  have small: "length (itsCells exampleHoneycomb) < 2 ^ 32"
    by (simp add: exampleHoneycomb_def)
  have first: "take (unat (itsNumVisibleCells hc')) (itsVisibleCells hc')
      = [Some 0, Some 3, Some 2, Some 1]"
    by (simp add: visible)
  from visible_cells_sorted [OF run adj planes cap small] run adj planes cap small first
  show ?thesis by blast
qed

subsection \<open>The Dirichlet domain\<close>

lemma getMemories_numeral:
  "getMemories (numeral k) anAllocator =
     (case GET_MEMORY anAllocator of
        (None, al1) \<Rightarrow> (None, al1)
      | (Some anAddress, al1) \<Rightarrow>
          (case getMemories (pred_numeral k) al1 of
             (None, al2) \<Rightarrow> (None, al2)
           | (Some someAddresses, al2) \<Rightarrow> (Some (anAddress # someAddresses), al2)))"
  by (simp add: numeral_eq_Suc)

lemma exampleBanana_halfspaces:
  "map (\<lambda>(a, theFace). itsHalfspace theFace) (itsFaceList exampleBanana)
     = [[0, 1, 0, - (1 / 2)], [- 1, 0, 0, - (1 / 2)], [1, 0, 0, - (1 / 2)]]"
  by (simp add: exampleBanana_def MakeBanana_def getMemories_numeral GET_MEMORY_def
      plentyOfMemory_def Let_def translation_def MakeHalfspaceInequality_def
      VectorDotProduct_def freshFace_def cong: let_weak_cong)

text \<open>
  C10.  IntersectWithHalfspace with the identity matrix (any matrix that MatrixIsIdentity
  accepts) returns no error and leaves the domain as it was, every vertex, half edge and
  face with all its fields; it makes no request for memory.
\<close>

theorem IntersectWithHalfspace_identity:
  "IntersectWithHalfspace aDirichletDomain MatrixIdentity anAllocator
     = Some (None, aDirichletDomain, anAllocator)
   \<and> (MatrixIsIdentity aMatrix \<longrightarrow>
        IntersectWithHalfspace aDirichletDomain aMatrix anAllocator
          = Some (None, aDirichletDomain, anAllocator))"
  by (simp add: IntersectWithHalfspace_def MatrixIsIdentity_def)

theorem IntersectWithHalfspace_identity_witness:
  "MatrixIsIdentity (MatrixIdentity\<lparr>itsParity := ImageNegative\<rparr>)
   \<and> IntersectWithHalfspace exampleBanana (MatrixIdentity\<lparr>itsParity := ImageNegative\<rparr>)
         plentyOfMemory
       = Some (None, exampleBanana, plentyOfMemory)
   \<and> IntersectWithHalfspace exampleBanana MatrixIdentity plentyOfMemory
       = Some (None, exampleBanana, plentyOfMemory)"
proof -
  have identity: "MatrixIsIdentity (MatrixIdentity\<lparr>itsParity := ImageNegative\<rparr>)"
    by (simp add: MatrixIsIdentity_def)
  with IntersectWithHalfspace_identity
         [of exampleBanana plentyOfMemory "MatrixIdentity\<lparr>itsParity := ImageNegative\<rparr>"]
  show ?thesis by simp
qed

text \<open>
  C3, as the code has it.  The face value that StayInDirichletDomain compares with its
  threshold is the one it computes: the halfspace equation of the face on the image of
  the basepoint (the last row of the placement), summed in double precision.  When on
  every face of the domain this computed value is at most 1e-8, the call returns the
  placement unchanged; so it does whenever on no face the value is greater than
  RESTORING_EPSILON, the double that the literal 1e-8 denotes, which is all the code
  tests (a value that is not a number is not greater).  So does every call with no
  domain (the 3-sphere).  The exact value of the halfspace equation does not decide:
  rounding lifts a value below 1e-8 above the threshold in the counterexample below.
\<close>

theorem StayInDirichletDomain_reduced:
  "((\<forall>(a, theFace) \<in> set (itsFaceList aDirichletDomain).
        DoubleAtMost (faceValue K (itsHalfspace theFace) aPlacement) (1 / 10 ^ 8)) \<longrightarrow>
      StayInDirichletDomain K (Some aDirichletDomain) aPlacement = aPlacement)
   \<and> ((\<forall>(a, theFace) \<in> set (itsFaceList aDirichletDomain).
          \<not> DoubleGreater (faceValue K (itsHalfspace theFace) aPlacement) RESTORING_EPSILON) \<longrightarrow>
        StayInDirichletDomain K (Some aDirichletDomain) aPlacement = aPlacement)
   \<and> StayInDirichletDomain K None aPlacement = aPlacement"
proof -
  have loop: "(\<forall>(a, theFace) \<in> set someFaces.
            \<not> DoubleGreater (faceValue K (itsHalfspace theFace) aPlacement) RESTORING_EPSILON) \<Longrightarrow>
        foldl (restoreAcrossFace K) aPlacement (map snd someFaces) = aPlacement"
    for someFaces
    by (induction someFaces) (auto simp: restoreAcrossFace_def)
  have below: "1 / 10 ^ 8 \<le> RESTORING_EPSILON"
    by (simp add: RESTORING_EPSILON_def)
  have notGreater: "\<not> DoubleGreater aSum RESTORING_EPSILON" if "DoubleAtMost aSum (1 / 10 ^ 8)"
    for aSum
    using that below by (cases aSum) (auto simp: DoubleAtMost_def DoubleGreater_def)
  show ?thesis
  proof (intro conjI impI)
    assume "\<forall>(a, theFace) \<in> set (itsFaceList aDirichletDomain).
              DoubleAtMost (faceValue K (itsHalfspace theFace) aPlacement) (1 / 10 ^ 8)"
    then have "\<forall>(a, theFace) \<in> set (itsFaceList aDirichletDomain).
              \<not> DoubleGreater (faceValue K (itsHalfspace theFace) aPlacement) RESTORING_EPSILON"
      using notGreater by blast
    from loop [OF this]
    show "StayInDirichletDomain K (Some aDirichletDomain) aPlacement = aPlacement"
      by simp
  next
    assume "\<forall>(a, theFace) \<in> set (itsFaceList aDirichletDomain).
              \<not> DoubleGreater (faceValue K (itsHalfspace theFace) aPlacement) RESTORING_EPSILON"
    from loop [OF this]
    show "StayInDirichletDomain K (Some aDirichletDomain) aPlacement = aPlacement"
      by simp
  next
    show "StayInDirichletDomain K None aPlacement = aPlacement"
      by simp
  qed
qed

theorem StayInDirichletDomain_reduced_witness:
  "map (\<lambda>(a, theFace). faceValue transposeKernel (itsHalfspace theFace) (translation (1 / 4) 0 3))
       (itsFaceList exampleBanana)
     = [FiniteDouble (- (1 / 2)), FiniteDouble (- (3 / 4)), FiniteDouble (- (1 / 4))]
   \<and> StayInDirichletDomain transposeKernel (Some exampleBanana) (translation (1 / 4) 0 3)
       = translation (1 / 4) 0 3"
proof -
  have "map (\<lambda>h. faceValue transposeKernel h (translation (1 / 4) 0 3))
          (map (\<lambda>(a, theFace). itsHalfspace theFace) (itsFaceList exampleBanana))
        = [FiniteDouble (- (1 / 2)), FiniteDouble (- (3 / 4)), FiniteDouble (- (1 / 4))]"
    unfolding exampleBanana_halfspaces
    by (simp add: faceValue_def translation_def transposeKernel_def)
  then have theValues:
    "map (\<lambda>(a, theFace). faceValue transposeKernel (itsHalfspace theFace) (translation (1 / 4) 0 3))
       (itsFaceList exampleBanana)
     = [FiniteDouble (- (1 / 2)), FiniteDouble (- (3 / 4)), FiniteDouble (- (1 / 4))]"
    by (simp add: case_prod_unfold comp_def)
  have "\<forall>x \<in> set (map (\<lambda>(a, theFace). faceValue transposeKernel (itsHalfspace theFace)
                                   (translation (1 / 4) 0 3))
                       (itsFaceList exampleBanana)).
          DoubleAtMost x (1 / 10 ^ 8) \<and> \<not> DoubleGreater x RESTORING_EPSILON"
    unfolding theValues by (simp add: DoubleAtMost_def DoubleGreater_def RESTORING_EPSILON_def)
  then have reduced: "\<forall>(a, theFace) \<in> set (itsFaceList exampleBanana).
        DoubleAtMost (faceValue transposeKernel (itsHalfspace theFace) (translation (1 / 4) 0 3))
          (1 / 10 ^ 8)"
    and notGreater: "\<forall>(a, theFace) \<in> set (itsFaceList exampleBanana).
        \<not> DoubleGreater (faceValue transposeKernel (itsHalfspace theFace)
                           (translation (1 / 4) 0 3)) RESTORING_EPSILON"
    by auto
  with StayInDirichletDomain_reduced [of exampleBanana transposeKernel "translation (1 / 4) 0 3"]
    theValues
  show ?thesis by blast
qed

lemma binaryExponent_halve: "2 \<le> x \<Longrightarrow> binaryExponent x = binaryExponent (x / 2) + 1"
  by (subst binaryExponent.simps) simp

lemma binaryExponent_double:
  "0 < x \<Longrightarrow> x < 1 \<Longrightarrow> binaryExponent x = binaryExponent (2 * x) - 1"
  by (subst binaryExponent.simps) simp

lemma binaryExponent_unit: "1 \<le> x \<Longrightarrow> x < 2 \<Longrightarrow> binaryExponent x = 0"
  by (subst binaryExponent.simps) simp

lemmas rounding =
  roundToDouble_def DoubleSum_def binaryExponent_halve binaryExponent_double binaryExponent_unit
  Let_def

lemma roundToDouble_literal: "roundToDouble (1 / 10 ^ 8) = FiniteDouble RESTORING_EPSILON"
  by (simp add: rounding RESTORING_EPSILON_def)

lemma skewBanana_faces:
  "map (\<lambda>(a, theFace). (itsHalfspace theFace, itsMatrix theFace)) (itsFaceList skewBanana)
     = [([3 / 4, 3 / 4, 1 / 2, - (11 / 16)], translation (3 / 4) (3 / 4) (1 / 2)),
        ([- 1, 0, 0, - (1 / 2)], translation (- 1) 0 0),
        ([1, 0, 0, - (1 / 2)], translation 1 0 0)]"
  by (simp add: skewBanana_def MakeBanana_def getMemories_numeral GET_MEMORY_def
      plentyOfMemory_def Let_def translation_def MakeHalfspaceInequality_def
      VectorDotProduct_def freshFace_def cong: let_weak_cong)

lemma skewBanana_halfspaces:
  "map (\<lambda>(a, theFace). itsHalfspace theFace) (itsFaceList skewBanana)
     = [[3 / 4, 3 / 4, 1 / 2, - (11 / 16)], [- 1, 0, 0, - (1 / 2)], [1, 0, 0, - (1 / 2)]]"
proof -
  have "map (\<lambda>(a, theFace). itsHalfspace theFace) (itsFaceList skewBanana)
        = map fst (map (\<lambda>(a, theFace). (itsHalfspace theFace, itsMatrix theFace))
                     (itsFaceList skewBanana))"
    by (simp add: case_prod_unfold comp_def)
  then show ?thesis
    unfolding skewBanana_faces by simp
qed

lemma faceValue_rounded:
  "map (\<lambda>h. faceValue roundingKernel h nearlyReducedPlacement)
     [[3 / 4, 3 / 4, 1 / 2, - (11 / 16)], [- 1, 0, 0, - (1 / 2)], [1, 0, 0, - (1 / 2)]]
   = [FiniteDouble (90071993 / 2 ^ 53), FiniteDouble (- 1), FiniteDouble 0]"
  by (simp add: rounding faceValue_def roundingKernel_def transposeKernel_def
      nearlyReducedPlacement_def translation_def)

lemma StayInDirichletDomain_faces:
  "StayInDirichletDomain K (Some aDirichletDomain) aPlacement =
     foldl (\<lambda>p (h, g). if DoubleGreater (faceValue K h p) RESTORING_EPSILON
                         then MatrixProduct p (MatrixGeometricInverse K g) else p)
       aPlacement
       (map (\<lambda>(a, theFace). (itsHalfspace theFace, itsMatrix theFace))
          (itsFaceList aDirichletDomain))"
proof -
  have "foldl (restoreAcrossFace K) p (map snd someFaces) =
        foldl (\<lambda>p (h, g). if DoubleGreater (faceValue K h p) RESTORING_EPSILON
                         then MatrixProduct p (MatrixGeometricInverse K g) else p)
          p (map (\<lambda>(a, theFace). (itsHalfspace theFace, itsMatrix theFace)) someFaces)"
    for someFaces p
    by (induction someFaces arbitrary: p) (auto simp: restoreAcrossFace_def)
  then show ?thesis
    by simp
qed

theorem StayInDirichletDomain_rounding_counterexample:
  "map (\<lambda>(a, theFace). VectorDotProduct (itsHalfspace theFace) (m nearlyReducedPlacement ! 3))
       (itsFaceList skewBanana)
     = [2882303761 / 2 ^ 58, - 1, 0]
   \<and> 2882303761 / 2 ^ 58 \<le> (1 / 10 ^ 8 :: real)
   \<and> map (\<lambda>(a, theFace). faceValue roundingKernel (itsHalfspace theFace) nearlyReducedPlacement)
         (itsFaceList skewBanana)
       = [FiniteDouble (90071993 / 2 ^ 53), FiniteDouble (- 1), FiniteDouble 0]
   \<and> DoubleGreater (FiniteDouble (90071993 / 2 ^ 53)) RESTORING_EPSILON
   \<and> StayInDirichletDomain roundingKernel (Some skewBanana) nearlyReducedPlacement
       \<noteq> nearlyReducedPlacement"
proof (intro conjI)
  have "map (\<lambda>h. VectorDotProduct h (m nearlyReducedPlacement ! 3))
          (map (\<lambda>(a, theFace). itsHalfspace theFace) (itsFaceList skewBanana))
        = [2882303761 / 2 ^ 58, - 1, 0]"
    unfolding skewBanana_halfspaces
    by (simp add: VectorDotProduct_def nearlyReducedPlacement_def translation_def)
  then show "map (\<lambda>(a, theFace). VectorDotProduct (itsHalfspace theFace)
                                 (m nearlyReducedPlacement ! 3))
               (itsFaceList skewBanana)
             = [2882303761 / 2 ^ 58, - 1, 0]"
    by (simp add: case_prod_unfold comp_def)
next
  show "2882303761 / 2 ^ 58 \<le> (1 / 10 ^ 8 :: real)"
    by simp
next
  have "map (\<lambda>h. faceValue roundingKernel h nearlyReducedPlacement)
          (map (\<lambda>(a, theFace). itsHalfspace theFace) (itsFaceList skewBanana))
        = [FiniteDouble (90071993 / 2 ^ 53), FiniteDouble (- 1), FiniteDouble 0]"
    unfolding skewBanana_halfspaces by (rule faceValue_rounded)
  then show "map (\<lambda>(a, theFace). faceValue roundingKernel (itsHalfspace theFace)
                                 nearlyReducedPlacement)
               (itsFaceList skewBanana)
             = [FiniteDouble (90071993 / 2 ^ 53), FiniteDouble (- 1), FiniteDouble 0]"
    by (simp add: case_prod_unfold comp_def)
next
  show "DoubleGreater (FiniteDouble (90071993 / 2 ^ 53)) RESTORING_EPSILON"
    by (simp add: DoubleGreater_def RESTORING_EPSILON_def)
next
  have moved: "StayInDirichletDomain roundingKernel (Some skewBanana) nearlyReducedPlacement
          = translation (- (1 / 4)) (- (5 / 16)) (- 76561190782994671 / 2 ^ 57)"
    unfolding StayInDirichletDomain_faces skewBanana_faces
    by (simp add: rounding faceValue_def roundingKernel_def transposeKernel_def flatInverse_def
        nearlyReducedPlacement_def translation_def DoubleGreater_def RESTORING_EPSILON_def
        MatrixProduct_def)
  then show "StayInDirichletDomain roundingKernel (Some skewBanana) nearlyReducedPlacement
          \<noteq> nearlyReducedPlacement"
    by (simp add: nearlyReducedPlacement_def translation_def)
qed

text \<open>
  C2, as the code has it.  The special case is a list of fewer than 3 matrices in all
  (itsNumMatrices < 3: "the identity and two other matrices" are what the construction
  needs).  Given a holonomy group that is not NULL and an output location that holds NULL,
  ConstructDirichletDomain then returns no error and leaves NULL in the output location
  when the list is not empty, and returns the error "received no matrices" when it is
  empty; for the identity alone it returns no error and a NULL domain.
\<close>

theorem ConstructDirichletDomain_few_matrices:
  "(length someMatrices < 3 \<and> someMatrices \<noteq> [] \<longrightarrow>
      ConstructDirichletDomain K (Some someMatrices) None anAllocator
        = Some (None, None, anAllocator))
   \<and> ConstructDirichletDomain K (Some []) None anAllocator
        = Some (Some ''ConstructDirichletDomain() received no matrices.'', None, anAllocator)
   \<and> ConstructDirichletDomain K (Some [MatrixIdentity]) None anAllocator
        = Some (None, None, anAllocator)"
  by (simp add: ConstructDirichletDomain_def)

theorem ConstructDirichletDomain_few_matrices_witness:
  "length [MatrixIdentity, antipodalMap] < 3 \<and> [MatrixIdentity, antipodalMap] \<noteq> []
   \<and> ConstructDirichletDomain transposeKernel (Some [MatrixIdentity, antipodalMap]) None
        plentyOfMemory
      = Some (None, None, plentyOfMemory)"
  using ConstructDirichletDomain_few_matrices
          [of "[MatrixIdentity, antipodalMap]" transposeKernel plentyOfMemory]
  by simp

theorem ConstructDirichletDomain_two_generators_counterexample:
  "length hyperbolicSlab = 3
   \<and> MatrixIsIdentity (hyperbolicSlab ! 0)
   \<and> \<not> MatrixIsIdentity (hyperbolicSlab ! 1)
   \<and> \<not> MatrixIsIdentity (hyperbolicSlab ! 2)
   \<and> ConstructDirichletDomain transposeKernel (Some hyperbolicSlab) None plentyOfMemory
      = Some (Some ''MakeLens() can't handle hyperbolic slab spaces.'', None, plentyOfMemory)"
  by (simp add: hyperbolicSlab_def hyperbolicTranslation_def MatrixIsIdentity_def
      MatrixIdentity_def ConstructDirichletDomain_def seedDirichletDomain_def firstIndex_def
      MakeLens_def Let_def)

subsection \<open>The Euler characteristic\<close>







end
